theory Spec2Isabelle
  imports Main "HOL-Library.AList" "HOL-Library.Multiset"
begin

section \<open>Common vocabulary of the three relay drafts\<close>

text \<open>
  The repository holds three drafts of the relay: the framed, JWT-authenticated one
  (\<^verbatim>\<open>main.go\<close>, with \<^verbatim>\<open>jwt.go\<close>), the simple line-protocol one
  (\<^verbatim>\<open>main-simple.go\<close>) and a line-protocol draft with heartbeats and a
  releasable port pool (the second program of \<^verbatim>\<open>unnamed/part_001\<close>).

  Connections, listeners, mux sessions and streams are handles (natural numbers) that
  the operating system hands to the code. What the code does to them is logged, in
  program order, in a trace of events; the pool operations of the heartbeat draft are
  logged there too, so that their order relative to the closes can be stated.
  Results the environment decides (whether a read, a write or a bind succeeds, what the
  clock shows) are parameters of the functions.
\<close>

text \<open>\<^verbatim>\<open>fmt.Sprintf("%d", i)\<close>: the decimal digits of an integer.\<close>

fun digits10 :: "nat \<Rightarrow> string" where
  "digits10 n =
     (if n < 10 then [''0123456789'' ! n]
      else digits10 (n div 10) @ [''0123456789'' ! (n mod 10)])"

declare digits10.simps [simp del]

definition fmt_d :: "int \<Rightarrow> string" where
  "fmt_d i = (if i < 0 then CHR ''-'' # digits10 (nat (- i)) else digits10 (nat i))"

text \<open>
  \<^verbatim>\<open>strings.TrimSpace\<close>: leading and trailing Unicode white space is removed. On
  the UTF-8 bytes of a Go string the white-space runes are the six ASCII ones,
  U+0085, U+00A0, U+1680, U+2000 to U+200A, U+2028, U+2029, U+202F, U+205F and U+3000.
  Each round of the two loops removes one such rune, so the length of the string is
  fuel enough.
\<close>

definition space_runes :: "string list" where
  "space_runes =
     [[CHR 0x09], [CHR 0x0A], [CHR 0x0B], [CHR 0x0C], [CHR 0x0D], [CHR 0x20],
      [CHR 0xC2, CHR 0x85], [CHR 0xC2, CHR 0xA0], [CHR 0xE1, CHR 0x9A, CHR 0x80],
      [CHR 0xE2, CHR 0x80, CHR 0x80], [CHR 0xE2, CHR 0x80, CHR 0x81],
      [CHR 0xE2, CHR 0x80, CHR 0x82], [CHR 0xE2, CHR 0x80, CHR 0x83],
      [CHR 0xE2, CHR 0x80, CHR 0x84], [CHR 0xE2, CHR 0x80, CHR 0x85],
      [CHR 0xE2, CHR 0x80, CHR 0x86], [CHR 0xE2, CHR 0x80, CHR 0x87],
      [CHR 0xE2, CHR 0x80, CHR 0x88], [CHR 0xE2, CHR 0x80, CHR 0x89],
      [CHR 0xE2, CHR 0x80, CHR 0x8A], [CHR 0xE2, CHR 0x80, CHR 0xA8],
      [CHR 0xE2, CHR 0x80, CHR 0xA9], [CHR 0xE2, CHR 0x80, CHR 0xAF],
      [CHR 0xE2, CHR 0x81, CHR 0x9F], [CHR 0xE3, CHR 0x80, CHR 0x80]]"

fun trim_left :: "nat \<Rightarrow> string \<Rightarrow> string" where
  "trim_left 0 s = s"
| "trim_left (Suc fuel) s =
     (case filter (\<lambda>r. take (length r) s = r) space_runes of
        [] \<Rightarrow> s
      | r # _ \<Rightarrow> trim_left fuel (drop (length r) s))"

fun trim_right :: "nat \<Rightarrow> string \<Rightarrow> string" where
  "trim_right 0 s = s"
| "trim_right (Suc fuel) s =
     (case filter (\<lambda>r. length r \<le> length s \<and> drop (length s - length r) s = r) space_runes of
        [] \<Rightarrow> s
      | r # _ \<Rightarrow> trim_right fuel (take (length s - length r) s))"

definition TrimSpace :: "string \<Rightarrow> string" where
  "TrimSpace s = trim_right (length s) (trim_left (length s) s)"

text \<open>\<^verbatim>\<open>strings.Split(s, ".")\<close>\<close>

fun Split_dot :: "string \<Rightarrow> string list" where
  "Split_dot [] = [[]]"
| "Split_dot (c # cs) =
     (if c = CHR ''.'' then [] # Split_dot cs
      else (case Split_dot cs of p # ps \<Rightarrow> (c # p) # ps | [] \<Rightarrow> [[c]]))"

text \<open>The messages of the framed protocol, and the events of the trace.\<close>

record RegisterPayload =
  TenantID :: string
  JWT :: string
  Version :: string

record RegisteredPayload =
  TenantID_r :: string
  AssignedPort_r :: int
  SQLUser_r :: string
  SQLPassword_r :: string
  PublicHost :: string
  ConnectionString :: string

datatype jwt_error =
    InvalidFormat nat
  | InvalidSignature
  | DecodePayloadFailed
  | ParseClaimsFailed
  | InvalidIssuer string string
  | InvalidAudience string string
  | TokenExpired int

datatype message = Text string | JWTVerificationFailed jwt_error

text \<open>
  Modelled from the spec: the frames of package \<^verbatim>\<open>common\<close>
  (\<^verbatim>\<open>EncodeMessage\<close>, \<^verbatim>\<open>MsgTypeError\<close>, \<^verbatim>\<open>MsgTypeRegistered\<close>,
  \<^verbatim>\<open>MsgTypePing\<close>), which is not under src/: an \<^verbatim>\<open>ERROR\<close> frame carries a
  code and a message, a \<^verbatim>\<open>REGISTERED\<close> frame the registered payload, a
  \<^verbatim>\<open>PING\<close> frame nothing.
\<close>

datatype frame = ErrorFrame string message | RegisteredFrame RegisteredPayload | PingFrame

datatype event =
    ConnWrite nat string
  | ConnClose nat
  | Listen int
  | ListenerClose nat
  | SessionClose nat
  | StreamOpen nat
  | StreamWrite nat frame
  | StreamClose nat
  | PoolAcquire int
  | PoolRelease int

record world =
  trace :: "event list"

definition emit :: "event list \<Rightarrow> 'a world_scheme \<Rightarrow> 'a world_scheme" where
  "emit es w = w\<lparr>trace := trace w @ es\<rparr>"

section \<open>The heartbeat draft (second program of unnamed/part\_001)\<close>

text \<open>
  \<^verbatim>\<open>type Agent struct { conn; assignedPort; listener; lastHeartbeat; mu }\<close>.
  Times are nanoseconds on the monotonic clock. The registry \<^verbatim>\<open>map[int]*Agent\<close>
  holds pointers: agents live in a store, and the registry maps a port to an address.
  The registry is an association list (a Go map has no duplicate keys and an
  unspecified iteration order; the list's order stands for one such order).
  The \<^verbatim>\<open>conn\<close> of an agent is never nil (it is the accepted connection); its
  \<^verbatim>\<open>listener\<close> is nil until the port is bound.
\<close>

record Agent =
  conn :: nat
  assignedPort :: int
  listener :: "nat option"
  lastHeartbeat :: int

record RelayServer_hb = world +
  agents :: "(int \<times> nat) list"
  availablePorts :: "int list"
  store :: "nat \<Rightarrow> Agent"
  nextAddr :: nat

definition second :: int where
  "second = 1000000000"

text \<open>\<^verbatim>\<open>func (r *RelayServer) assignPort() int\<close>\<close>

definition assignPort :: "RelayServer_hb \<Rightarrow> int \<times> RelayServer_hb" where
  "assignPort r =
     (case availablePorts r of
        [] \<Rightarrow> (0, r)
      | port # rest \<Rightarrow> (port, emit [PoolAcquire port] (r\<lparr>availablePorts := rest\<rparr>)))"

text \<open>\<^verbatim>\<open>func (r *RelayServer) releasePort(port int)\<close>\<close>

definition releasePort :: "int \<Rightarrow> RelayServer_hb \<Rightarrow> RelayServer_hb" where
  "releasePort port r =
     emit [PoolRelease port] (r\<lparr>availablePorts := availablePorts r @ [port]\<rparr>)"

text \<open>\<^verbatim>\<open>func (r *RelayServer) cleanupAgent(port int)\<close>\<close>

definition cleanupAgent :: "int \<Rightarrow> RelayServer_hb \<Rightarrow> RelayServer_hb" where
  "cleanupAgent port r =
     (let found = map_of (agents r) port;
          r1 = r\<lparr>agents := AList.delete port (agents r)\<rparr>
      in case found of
           None \<Rightarrow> r1
         | Some a \<Rightarrow>
             releasePort port
               (emit ((case listener (store r1 a) of
                         None \<Rightarrow> []
                       | Some l \<Rightarrow> [ListenerClose l]) @
                      [ConnClose (conn (store r1 a))]) r1))"

text \<open>
  \<^verbatim>\<open>func (r *RelayServer) handleAgent(conn net.Conn)\<close>, in three parts: the
  registration handshake, the body of the heartbeat loop for one line read, and the
  exit after the loop. Parameters: the connection \<open>c\<close>; \<open>first\<close>, the first
  \<^verbatim>\<open>ReadString\<close> (\<open>None\<close> for an error); \<open>now\<close>, the clock when the agent is
  created; \<open>bind\<close>, the result of \<^verbatim>\<open>net.Listen\<close> (an error text or a
  listener); \<open>write_ok\<close>, whether the \<^verbatim>\<open>OK\<close> line could be written.
\<close>

datatype hs_outcome =
    ReadFailed
  | InvalidCommand
  | NoAvailablePorts
  | BindFailed
  | ResponseFailed
  | Registered int nat

definition handleAgent_register ::
  "nat \<Rightarrow> string option \<Rightarrow> int \<Rightarrow> string + nat \<Rightarrow> bool \<Rightarrow> RelayServer_hb
     \<Rightarrow> hs_outcome \<times> RelayServer_hb" where
  "handleAgent_register c first now bind write_ok r =
     (case first of
        None \<Rightarrow> (ReadFailed, emit [ConnClose c] r)
      | Some line \<Rightarrow>
          if TrimSpace line \<noteq> ''REGISTER'' then
            (InvalidCommand,
             emit [ConnWrite c ''ERROR invalid command\<newline>'', ConnClose c] r)
          else
            (case assignPort r of (port, r1) \<Rightarrow>
               if port = 0 then
                 (NoAvailablePorts,
                  emit [ConnWrite c ''ERROR no available ports\<newline>'', ConnClose c] r1)
               else
                 let a = nextAddr r1;
                     r2 = r1\<lparr>store := (store r1)
                            (a := \<lparr>conn = c, assignedPort = port, listener = None,
                                   lastHeartbeat = now\<rparr>),
                          nextAddr := Suc a\<rparr>;
                     r3 = emit [Listen port] r2
                 in (case bind of
                       Inl err \<Rightarrow>
                         (BindFailed,
                          emit [ConnWrite c (''ERROR failed to bind port: '' @ err @ ''\<newline>''),
                                ConnClose c]
                            (releasePort port r3))
                     | Inr l \<Rightarrow>
                         let r4 = r3\<lparr>store := (store r3)
                                    (a := (store r3 a)\<lparr>listener := Some l\<rparr>)\<rparr>;
                             r5 = r4\<lparr>agents := AList.update port a (agents r4)\<rparr>;
                             r6 = emit [ConnWrite c (''OK port:'' @ fmt_d port @ ''\<newline>'')] r5
                         in if \<not> write_ok then
                              (ResponseFailed, emit [ConnClose c] (cleanupAgent port r6))
                            else (Registered port a, r6))))"

definition handleAgent_line :: "int \<Rightarrow> string \<Rightarrow> nat \<Rightarrow> RelayServer_hb \<Rightarrow> RelayServer_hb" where
  "handleAgent_line now line a r =
     (if TrimSpace line = ''HEARTBEAT''
      then r\<lparr>store := (store r)(a := (store r a)\<lparr>lastHeartbeat := now\<rparr>)\<rparr>
      else r)"

definition handleAgent_exit :: "int \<Rightarrow> nat \<Rightarrow> RelayServer_hb \<Rightarrow> RelayServer_hb" where
  "handleAgent_exit port c r = emit [ConnClose c] (cleanupAgent port r)"

text \<open>
  The whole handler. After the handshake its read loop has read the lines \<open>lines\<close>
  (each with the clock at its arrival). Then either the handler is blocked in the next
  \<^verbatim>\<open>ReadString\<close> (\<open>Reading\<close>: the result is the state that the other goroutines,
  such as \<^verbatim>\<open>heartbeatChecker\<close>, see at that moment), or that read returned an error
  (\<open>Disconnected\<close>: the loop is left, \<^verbatim>\<open>cleanupAgent\<close> runs and the handler
  returns).
\<close>

datatype reader = Reading | Disconnected

definition handleAgent ::
  "nat \<Rightarrow> string option \<Rightarrow> int \<Rightarrow> string + nat \<Rightarrow> bool \<Rightarrow> (int \<times> string) list
     \<Rightarrow> reader \<Rightarrow> RelayServer_hb \<Rightarrow> RelayServer_hb" where
  "handleAgent c first now bind write_ok lines rd r =
     (case handleAgent_register c first now bind write_ok r of
        (Registered port a, r') \<Rightarrow>
          (let r'' = foldl (\<lambda>r (t, line). handleAgent_line t line a r) r' lines
           in case rd of
                Reading \<Rightarrow> r''
              | Disconnected \<Rightarrow> handleAgent_exit port c r'')
      | (_, r') \<Rightarrow> r')"

text \<open>
  \<^verbatim>\<open>func (r *RelayServer) heartbeatChecker()\<close>: what one tick of the 60-second
  ticker does when the clock shows \<open>now\<close>. The ports of the stale agents are
  collected first, then each is cleaned up.
\<close>

definition stalePorts :: "int \<Rightarrow> RelayServer_hb \<Rightarrow> int list" where
  "stalePorts now r =
     map fst (filter (\<lambda>(port, a). now - lastHeartbeat (store r a) > 120 * second) (agents r))"

definition heartbeatChecker_tick :: "int \<Rightarrow> RelayServer_hb \<Rightarrow> RelayServer_hb" where
  "heartbeatChecker_tick now r = foldl (\<lambda>r port. cleanupAgent port r) r (stalePorts now r)"

text \<open>
  The ticker of \<^verbatim>\<open>heartbeatChecker\<close>, \<^verbatim>\<open>time.NewTicker(60 * time.Second)\<close>,
  created when the clock shows \<open>start\<close>: the clock at its tick number \<open>k\<close> (from 0),
  for a ticker that drops no tick.
\<close>

definition tick_time :: "int \<Rightarrow> nat \<Rightarrow> int" where
  "tick_time start k = start + (int k + 1) * (60 * second)"

section \<open>The authenticated draft (main.go, jwt.go)\<close>

text \<open>
  \<^verbatim>\<open>type JWTClaims struct\<close>. \<^verbatim>\<open>Exp\<close> and \<^verbatim>\<open>Iat\<close> are \<^verbatim>\<open>int64\<close>; they
  are only compared, never computed with. A claim missing from the JSON is the zero
  value.
\<close>

record JWTClaims =
  Sub :: string
  Iss :: string
  Aud :: string
  Exp :: int
  Iat :: int
  OrganizationID :: string
  UserID :: string
  Role :: string

text \<open>
  The library functions \<^verbatim>\<open>VerifyJWT\<close> calls: HMAC-SHA-256 (key, message),
  \<^verbatim>\<open>base64.RawURLEncoding\<close> in both directions, and \<^verbatim>\<open>json.Unmarshal\<close> into
  the claims.
\<close>

record jwt_lib =
  hmac_sha256 :: "string \<Rightarrow> string \<Rightarrow> string"
  base64url_encode :: "string \<Rightarrow> string"
  base64url_decode :: "string \<Rightarrow> string option"
  json_unmarshal :: "string \<Rightarrow> JWTClaims option"

text \<open>\<^verbatim>\<open>func computeSignature(header, payload, secret string) (string, error)\<close>\<close>

definition computeSignature :: "jwt_lib \<Rightarrow> string \<Rightarrow> string \<Rightarrow> string \<Rightarrow> string" where
  "computeSignature lib header payload secret =
     base64url_encode lib (hmac_sha256 lib secret (header @ ''.'' @ payload))"

text \<open>
  \<^verbatim>\<open>func VerifyJWT(tokenString, secret, expectedIssuer, expectedAudience string)\<close>;
  \<open>now\<close> is \<^verbatim>\<open>time.Now().Unix()\<close>, in seconds.
\<close>

definition VerifyJWT ::
  "jwt_lib \<Rightarrow> int \<Rightarrow> string \<Rightarrow> string \<Rightarrow> string \<Rightarrow> string \<Rightarrow> jwt_error + JWTClaims" where
  "VerifyJWT lib now tokenString secret expectedIssuer expectedAudience =
     (let parts = Split_dot tokenString in
      if length parts \<noteq> 3 then Inl (InvalidFormat (length parts))
      else
        let header = parts ! 0; payload = parts ! 1; signature = parts ! 2 in
        if signature \<noteq> computeSignature lib header payload secret then Inl InvalidSignature
        else
          (case base64url_decode lib payload of
             None \<Rightarrow> Inl DecodePayloadFailed
           | Some payloadBytes \<Rightarrow>
               (case json_unmarshal lib payloadBytes of
                  None \<Rightarrow> Inl ParseClaimsFailed
                | Some claims \<Rightarrow>
                    if Iss claims \<noteq> expectedIssuer
                    then Inl (InvalidIssuer expectedIssuer (Iss claims))
                    else if Aud claims \<noteq> expectedAudience
                    then Inl (InvalidAudience expectedAudience (Aud claims))
                    else if Exp claims > 0 \<and> Exp claims < now
                    then Inl (TokenExpired (Exp claims))
                    else Inr claims)))"

text \<open>
  \<^verbatim>\<open>type Tenant struct\<close> and \<^verbatim>\<open>type RelayServer struct\<close>. The pool is the
  slice \<^verbatim>\<open>portPool\<close> with the cursor \<^verbatim>\<open>nextPortIndex\<close>, which starts at 0 and
  is only ever incremented.
\<close>

record Tenant =
  ID :: string
  AssignedPort :: int
  SQLUser :: string
  SQLPassword :: string
  ControlSession :: nat
  Listener :: "nat option"
  ActiveConns :: int

text \<open>
  Modelled from the spec: \<^verbatim>\<open>common.RelayConfig\<close>, declared in a package that is not
  under src/; the fields are those \<^verbatim>\<open>main.go\<close> reads.
\<close>

record RelayConfig =
  ControlPort :: int
  TenantPortStart :: int
  TenantPortEnd :: int
  MaxConnectionsPerTenant :: int

record RelayServer = world +
  config :: RelayConfig
  tenants :: "string \<Rightarrow> Tenant option"
  portPool :: "int list"
  nextPortIndex :: nat
  jwtSecret :: string
  jwtIssuer :: string
  jwtAudience :: string

text \<open>
  The run-time panics of this draft and of the simple one: \<^verbatim>\<open>make\<close> with a negative
  capacity, and a slice expression out of range. Nothing recovers a panic, so the
  process ends there.
\<close>

datatype panic = MakeSliceCapOutOfRange | SliceBoundsOutOfRange

text \<open>
  \<^verbatim>\<open>func NewRelayServer(config, hisBackendURL, relaySecret, jwtSecret)\<close>. The pool is
  made with the capacity \<^verbatim>\<open>TenantPortEnd-TenantPortStart+1\<close>, which panics when
  negative, and filled with the ports from start to end.
\<close>

definition NewRelayServer :: "RelayConfig \<Rightarrow> string \<Rightarrow> panic + RelayServer" where
  "NewRelayServer cfg secret =
     (if TenantPortEnd cfg - TenantPortStart cfg + 1 < 0 then Inl MakeSliceCapOutOfRange
      else Inr \<lparr>trace = [], config = cfg, tenants = (\<lambda>_. None),
             portPool = [TenantPortStart cfg .. TenantPortEnd cfg], nextPortIndex = 0,
             jwtSecret = secret, jwtIssuer = ''his.tatbeeb.sa'',
             jwtAudience = ''tatbeeb-link.tatbeeb.sa''\<rparr>)"

text \<open>The \<^verbatim>\<open>available_ports\<close> figure of \<^verbatim>\<open>handleMetrics\<close>.\<close>

definition available_ports :: "RelayServer \<Rightarrow> int" where
  "available_ports s = int (length (portPool s)) - int (nextPortIndex s)"

text \<open>\<^verbatim>\<open>func generatePassword() string\<close>; \<open>now\<close> is \<^verbatim>\<open>time.Now().Unix()\<close>.\<close>

definition generatePassword :: "int \<Rightarrow> string" where
  "generatePassword now = ''pwd_'' @ fmt_d now"

text \<open>
  \<^verbatim>\<open>func (s *RelayServer) registerTenant(tenantID string, session *yamux.Session) *Tenant\<close>.
  \<open>bind\<close> is the result of \<^verbatim>\<open>net.Listen\<close>. The slice expression
  \<^verbatim>\<open>tenantID[:6]\<close> panics when the string has fewer than 6 bytes. The whole body
  runs under the lock of the server.
\<close>

definition registerTenant ::
  "string \<Rightarrow> nat \<Rightarrow> nat option \<Rightarrow> int \<Rightarrow> RelayServer
     \<Rightarrow> panic + (Tenant option \<times> RelayServer)" where
  "registerTenant tenantID session bind now s =
     (let s1 = (case tenants s tenantID of
                  None \<Rightarrow> s
                | Some existing \<Rightarrow>
                    (case Listener existing of
                       None \<Rightarrow> s
                     | Some l \<Rightarrow> emit [ListenerClose l] s))
      in if nextPortIndex s1 \<ge> length (portPool s1) then Inr (None, s1)
         else
           let port = portPool s1 ! nextPortIndex s1;
               s2 = emit [Listen port] (s1\<lparr>nextPortIndex := nextPortIndex s1 + 1\<rparr>)
           in (case bind of
                 None \<Rightarrow> Inr (None, s2)
               | Some l \<Rightarrow>
                   if length tenantID < 6 then Inl SliceBoundsOutOfRange
                   else
                     let tenant = \<lparr>ID = tenantID, AssignedPort = port,
                                    SQLUser = ''tatbeeb_'' @ take 6 tenantID,
                                    SQLPassword = generatePassword now,
                                    ControlSession = session, Listener = Some l,
                                    ActiveConns = 0\<rparr>
                     in Inr (Some tenant, s2\<lparr>tenants := (tenants s2)(tenantID \<mapsto> tenant)\<rparr>)))"

text \<open>\<^verbatim>\<open>func (s *RelayServer) unregisterTenant(tenantID string)\<close>\<close>

definition unregisterTenant :: "string \<Rightarrow> RelayServer \<Rightarrow> RelayServer" where
  "unregisterTenant tenantID s =
     (case tenants s tenantID of
        None \<Rightarrow> s
      | Some tenant \<Rightarrow>
          (case Listener tenant of
             None \<Rightarrow> s
           | Some l \<Rightarrow> emit [ListenerClose l] s)\<lparr>tenants := (tenants s)(tenantID := None)\<rparr>)"

text \<open>
  \<^verbatim>\<open>func (s *RelayServer) handleControlConnection(conn net.Conn)\<close>, from the
  point where the mux session \<open>session\<close> and the control stream \<open>stream\<close> exist
  (main.go:185) to the point where it starts the goroutines of the tenant (main.go:258).
  \<open>reg\<close> is \<open>None\<close> when the read or the decoding of the registration message failed
  (the handler then only returns). \<open>t_verify\<close> and \<open>t_register\<close> are the two readings
  of the clock in seconds, \<open>bind\<close> the result of \<^verbatim>\<open>net.Listen\<close>, \<open>write_ok\<close>
  whether the \<^verbatim>\<open>REGISTERED\<close> frame could be written. The deferred closes of the
  stream, the session and the connection run when the handler returns. With the
  outcome \<open>Serving tenant\<close> the handler goes on: it starts
  \<^verbatim>\<open>acceptTenantConnections(tenant)\<close> and \<^verbatim>\<open>sendHeartbeats(tenant)\<close> as
  goroutines and enters \<^verbatim>\<open>keepAlive\<close>. Only \<^verbatim>\<open>registerTenant\<close> and
  \<^verbatim>\<open>unregisterTenant\<close> run under the lock: other goroutines can change the
  registry between the return of \<^verbatim>\<open>registerTenant\<close> and the write of the reply
  (\<open>respondRegistered\<close> is that second part on its own), and after it.
\<close>

datatype cc_outcome =
    NoRegistration
  | JWTRejected
  | TenantMismatch
  | RegistrationFailed
  | ResponseWriteFailed
  | Serving Tenant

definition registeredPayload :: "Tenant \<Rightarrow> RegisteredPayload" where
  "registeredPayload tenant =
     \<lparr>TenantID_r = ID tenant, AssignedPort_r = AssignedPort tenant,
      SQLUser_r = SQLUser tenant, SQLPassword_r = SQLPassword tenant,
      PublicHost = ''link.tatbeeb.sa'',
      ConnectionString =
        ''Server=link.tatbeeb.sa,'' @ fmt_d (AssignedPort tenant) @
        '';Encrypt=True;TrustServerCertificate=False;User Id='' @ SQLUser tenant @
        '';Password='' @ SQLPassword tenant @ '';''\<rparr>"

definition respondRegistered ::
  "nat \<Rightarrow> nat \<Rightarrow> nat \<Rightarrow> Tenant \<Rightarrow> bool \<Rightarrow> RelayServer \<Rightarrow> cc_outcome \<times> RelayServer" where
  "respondRegistered c session stream tenant write_ok s1 =
     (let s2 = emit [StreamWrite stream (RegisteredFrame (registeredPayload tenant))] s1
      in if \<not> write_ok then
           (ResponseWriteFailed,
            emit [StreamClose stream, SessionClose session, ConnClose c]
              (unregisterTenant (ID tenant) s2))
         else (Serving tenant, s2))"

definition handleControlConnection ::
  "jwt_lib \<Rightarrow> nat \<Rightarrow> nat \<Rightarrow> nat \<Rightarrow> RegisterPayload option \<Rightarrow> int \<Rightarrow> nat option \<Rightarrow> int
     \<Rightarrow> bool \<Rightarrow> RelayServer \<Rightarrow> panic + (cc_outcome \<times> RelayServer)" where
  "handleControlConnection lib c session stream reg t_verify bind t_register write_ok s =
     (let closing = [StreamClose stream, SessionClose session, ConnClose c] in
      case reg of
        None \<Rightarrow> Inr (NoRegistration, emit closing s)
      | Some regPayload \<Rightarrow>
          (case VerifyJWT lib t_verify (JWT regPayload) (jwtSecret s) (jwtIssuer s)
                  (jwtAudience s) of
             Inl err \<Rightarrow>
               Inr (JWTRejected,
                    emit (StreamWrite stream
                            (ErrorFrame ''INVALID_JWT'' (JWTVerificationFailed err)) # closing) s)
           | Inr claims \<Rightarrow>
               if Sub claims \<noteq> TenantID regPayload then
                 Inr (TenantMismatch,
                      emit (StreamWrite stream
                              (ErrorFrame ''TENANT_ID_MISMATCH''
                                 (Text ''Tenant ID does not match JWT claims'')) # closing) s)
               else
                 (case registerTenant (TenantID regPayload) session bind t_register s of
                    Inl p \<Rightarrow> Inl p
                  | Inr (None, s1) \<Rightarrow>
                      Inr (RegistrationFailed,
                           emit (StreamWrite stream
                                   (ErrorFrame ''REGISTRATION_FAILED''
                                      (Text ''Failed to allocate port'')) # closing) s1)
                  | Inr (Some tenant, s1) \<Rightarrow>
                      Inr (respondRegistered c session stream tenant write_ok s1))))"

text \<open>
  \<^verbatim>\<open>func (s *RelayServer) keepAlive(stream, tenant)\<close>, when the write of a ping
  fails: the tenant is unregistered by its id, \<^verbatim>\<open>keepAlive\<close> returns and with it
  the handler of the control connection.
\<close>

definition keepAlive_failed :: "nat \<Rightarrow> nat \<Rightarrow> nat \<Rightarrow> Tenant \<Rightarrow> RelayServer \<Rightarrow> RelayServer" where
  "keepAlive_failed c session stream tenant s =
     emit [StreamClose stream, SessionClose session, ConnClose c]
       (unregisterTenant (ID tenant) (emit [StreamWrite stream PingFrame] s))"

text \<open>
  The forwarder of one tenant: \<^verbatim>\<open>acceptTenantConnections\<close> and
  \<^verbatim>\<open>handleTenantConnection\<close>. The loop owns the tenant through a pointer; its state
  is the tenant and the trace. \<open>Accepted c so\<close>: the listener accepted the client
  connection \<open>c\<close>, and \<open>so\<close> is what \<^verbatim>\<open>OpenStream\<close> returns if it is called
  (\<open>None\<close> for an error). \<open>Finished c st\<close>: one direction of the copy of a forwarded
  connection ended, and \<^verbatim>\<open>handleTenantConnection\<close> returns.
  \<open>acceptTenantConnections\<close> is the loop for a run of such events. The loop ends when
  \<^verbatim>\<open>Accept\<close> returns an error, which it does once the listener of the tenant is
  closed; the deferred \<^verbatim>\<open>s.unregisterTenant(tenant.ID)\<close> then runs on the server:
  \<open>acceptTenantConnections_exit\<close>. It finds the registry entry by the id, whichever
  session registered it.
\<close>

record forwarder = world +
  tenant :: Tenant


definition releaseConn :: "forwarder \<Rightarrow> forwarder" where
  "releaseConn f = f\<lparr>tenant := (tenant f)\<lparr>ActiveConns := ActiveConns (tenant f) - 1\<rparr>\<rparr>"



definition acceptTenantConnections_exit :: "Tenant \<Rightarrow> RelayServer \<Rightarrow> RelayServer" where
  "acceptTenantConnections_exit t s = unregisterTenant (ID t) s"

text \<open>
  Every goroutine of this draft changes the registry and the pool only through
  \<^verbatim>\<open>registerTenant\<close> and \<^verbatim>\<open>unregisterTenant\<close>, each under the lock of the
  server. A schedule is a list of such calls, in the order in which they get the lock;
  a panic ends the run.
\<close>

datatype relay_op = Register string nat "nat option" int | Unregister string

fun apply_op :: "RelayServer \<Rightarrow> relay_op \<Rightarrow> panic + RelayServer" where
  "apply_op s (Register tenantID session bind now) =
     (case registerTenant tenantID session bind now s of
        Inl p \<Rightarrow> Inl p
      | Inr (res, s') \<Rightarrow> Inr s')"
| "apply_op s (Unregister tenantID) = Inr (unregisterTenant tenantID s)"

fun run_ops :: "RelayServer \<Rightarrow> relay_op list \<Rightarrow> panic + RelayServer" where
  "run_ops s [] = Inr s"
| "run_ops s (op # ops) =
     (case apply_op s op of
        Inl p \<Rightarrow> Inl p
      | Inr s' \<Rightarrow> run_ops s' ops)"

section \<open>The simple draft (main-simple.go)\<close>

record SimpleTenant =
  ID_s :: string
  AssignedPort_s :: int
  YamuxSession :: nat
  Listener_s :: nat
  ActiveConns_s :: int

record SimpleRelay = world +
  tenants_s :: "string \<Rightarrow> SimpleTenant option"
  portPool_s :: "int list"
  nextPortIndex_s :: nat

text \<open>
  \<^verbatim>\<open>func NewSimpleRelay(startPort, endPort int) *SimpleRelay\<close>, with the same
  \<^verbatim>\<open>make\<close> as \<^verbatim>\<open>NewRelayServer\<close>.
\<close>

definition NewSimpleRelay :: "int \<Rightarrow> int \<Rightarrow> panic + SimpleRelay" where
  "NewSimpleRelay startPort endPort =
     (if endPort - startPort + 1 < 0 then Inl MakeSliceCapOutOfRange
      else Inr \<lparr>trace = [], tenants_s = (\<lambda>_. None), portPool_s = [startPort .. endPort],
             nextPortIndex_s = 0\<rparr>)"

text \<open>
  \<^verbatim>\<open>func (s *SimpleRelay) handleConnection(conn net.Conn)\<close>, up to the accept loop.
  \<open>first\<close> is the bytes read before the first newline (\<open>None\<close> when a read failed
  first), \<open>write_ok\<close> whether the \<^verbatim>\<open>OK\<close> line could be written, \<open>mux\<close> the result
  of \<^verbatim>\<open>yamux.Server\<close>, \<open>bind\<close> the result of \<^verbatim>\<open>net.Listen\<close>.
\<close>

datatype simple_outcome =
    ReadFailed_s
  | UnknownCommand
  | NoPortsAvailable
  | ResponseFailed_s
  | SessionFailed
  | ListenFailed
  | Serving_s SimpleTenant

definition handleConnection ::
  "nat \<Rightarrow> string option \<Rightarrow> bool \<Rightarrow> nat option \<Rightarrow> nat option \<Rightarrow> SimpleRelay
     \<Rightarrow> simple_outcome \<times> SimpleRelay" where
  "handleConnection c first write_ok mux bind s =
     (case first of
        None \<Rightarrow> (ReadFailed_s, emit [ConnClose c] s)
      | Some line \<Rightarrow>
          if TrimSpace line \<noteq> ''REGISTER'' then (UnknownCommand, emit [ConnClose c] s)
          else if nextPortIndex_s s \<ge> length (portPool_s s) then
            (NoPortsAvailable,
             emit [ConnWrite c ''ERROR No ports available\<newline>'', ConnClose c] s)
          else
            let port = portPool_s s ! nextPortIndex_s s;
                s1 = s\<lparr>nextPortIndex_s := nextPortIndex_s s + 1\<rparr>;
                tenantID = ''tenant-'' @ fmt_d port;
                s2 = emit [ConnWrite c (''OK port:'' @ fmt_d port @ ''\<newline>'')] s1
            in if \<not> write_ok then (ResponseFailed_s, emit [ConnClose c] s2)
               else
                 (case mux of
                    None \<Rightarrow> (SessionFailed, emit [ConnClose c] s2)
                  | Some session \<Rightarrow>
                      let s3 = emit [Listen port] s2 in
                      (case bind of
                         None \<Rightarrow> (ListenFailed, emit [SessionClose session, ConnClose c] s3)
                       | Some l \<Rightarrow>
                           let tenant = \<lparr>ID_s = tenantID, AssignedPort_s = port,
                                          YamuxSession = session, Listener_s = l,
                                          ActiveConns_s = 0\<rparr>
                           in (Serving_s tenant,
                               s3\<lparr>tenants_s := (tenants_s s3)(tenantID \<mapsto> tenant)\<rparr>))))"

section \<open>Sample inputs\<close>

text \<open>
  Concrete inputs for the examples below: claims with the issuer and audience that
  \<^verbatim>\<open>NewRelayServer\<close> configures; a stand-in for the library in which every MAC is
  the text \<^verbatim>\<open>mac\<close>, base64url is the identity and every payload parses to the given
  claims; a configuration; a registry of the heartbeat draft that holds one agent on
  port 50000; a registration message whose token has three parts and the signature
  \<^verbatim>\<open>mac\<close>.
\<close>

definition sample_claims :: "string \<Rightarrow> int \<Rightarrow> JWTClaims" where
  "sample_claims sub e =
     \<lparr>Sub = sub, Iss = ''his.tatbeeb.sa'', Aud = ''tatbeeb-link.tatbeeb.sa'', Exp = e,
      Iat = 0, OrganizationID = ''org-1'', UserID = ''user-1'', Role = ''agent''\<rparr>"

definition sample_lib :: "JWTClaims \<Rightarrow> jwt_lib" where
  "sample_lib cl =
     \<lparr>hmac_sha256 = (\<lambda>key msg. ''mac''), base64url_encode = (\<lambda>bytes. bytes),
      base64url_decode = (\<lambda>text. Some text), json_unmarshal = (\<lambda>bytes. Some cl)\<rparr>"

definition sample_config :: "int \<Rightarrow> int \<Rightarrow> int \<Rightarrow> RelayConfig" where
  "sample_config lo hi maxc =
     \<lparr>ControlPort = 8443, TenantPortStart = lo, TenantPortEnd = hi,
      MaxConnectionsPerTenant = maxc\<rparr>"

definition sample_agents :: "int list \<Rightarrow> RelayServer_hb" where
  "sample_agents free =
     \<lparr>trace = [], agents = [(50000, 0)], availablePorts = free,
      store = (\<lambda>_. \<lparr>conn = 7, assignedPort = 50000, listener = Some 3, lastHeartbeat = 0\<rparr>),
      nextAddr = 1\<rparr>"

definition sample_register :: "string \<Rightarrow> RegisterPayload" where
  "sample_register tid = \<lparr>TenantID = tid, JWT = ''header.payload.mac'', Version = ''1.0.0''\<rparr>"


section \<open>Basic facts\<close>

lemma trace_emit [simp]: "trace (emit es r) = trace r @ es"
  by (simp add: emit_def)

lemma availablePorts_emit [simp]: "availablePorts (emit es r) = availablePorts r"
  by (simp add: emit_def)

lemma agents_emit [simp]: "agents (emit es r) = agents r"
  by (simp add: emit_def)

lemma store_emit [simp]: "store (emit es r) = store r"
  by (simp add: emit_def)

lemma nextAddr_emit [simp]: "nextAddr (emit es r) = nextAddr r"
  by (simp add: emit_def)

lemma emit_RelayServer [simp]:
  "tenants (emit es s) = tenants s" "portPool (emit es s) = portPool s"
  "nextPortIndex (emit es s) = nextPortIndex s" "config (emit es s) = config s"
  "jwtSecret (emit es s) = jwtSecret s" "jwtIssuer (emit es s) = jwtIssuer s"
  "jwtAudience (emit es s) = jwtAudience s"
  by (simp_all add: emit_def)

lemma emit_SimpleRelay [simp]:
  "tenants_s (emit es s) = tenants_s s" "portPool_s (emit es s) = portPool_s s"
  "nextPortIndex_s (emit es s) = nextPortIndex_s s"
  by (simp_all add: emit_def)

lemma emit_forwarder [simp]: "tenant (emit es f) = tenant f"
  by (simp add: emit_def)

lemma available_ports_emit [simp]: "available_ports (emit es s) = available_ports s"
  by (simp add: available_ports_def)

lemma TrimSpace_REGISTER_line: "TrimSpace ''REGISTER\<newline>'' = ''REGISTER''"
  by code_simp

lemma TrimSpace_REGISTER: "TrimSpace ''REGISTER'' = ''REGISTER''"
  by code_simp

lemma cleanupAgent_agents [simp]: "agents (cleanupAgent p r) = AList.delete p (agents r)"
  by (simp add: cleanupAgent_def releasePort_def Let_def split: option.split)

lemma cleanupAgent_store [simp]: "store (cleanupAgent p r) = store r"
  by (simp add: cleanupAgent_def releasePort_def Let_def split: option.split)

lemma cleanupAgent_availablePorts:
  "availablePorts (cleanupAgent p r) =
     (case map_of (agents r) p of None \<Rightarrow> availablePorts r | Some a \<Rightarrow> availablePorts r @ [p])"
  by (simp add: cleanupAgent_def releasePort_def Let_def split: option.split)


lemma cleanup_all_agents:
  "map_of (agents (foldl (\<lambda>r p. cleanupAgent p r) r ps)) q =
     (if q \<in> set ps then None else map_of (agents r) q)"
  by (induction ps arbitrary: r) (auto simp: delete_conv')

lemma cleanup_all_store [simp]: "store (foldl (\<lambda>r p. cleanupAgent p r) r ps) = store r"
  by (induction ps arbitrary: r) auto



lemma stalePorts_iff:
  "q \<in> set (stalePorts now r) \<longleftrightarrow>
     (\<exists>a. (q, a) \<in> set (agents r) \<and> now - lastHeartbeat (store r a) > 120 * second)"
  by (force simp: stalePorts_def)

lemma next_tick:
  assumes "start \<le> now"
  shows "now \<le> tick_time start (nat ((now - start) div (60 * second)))"
    and "tick_time start (nat ((now - start) div (60 * second))) \<le> now + 60 * second"
proof -
  let ?P = "60 * second"
  let ?d = "now - start"
  have P: "0 < ?P" by (simp add: second_def)
  from assms have d: "0 \<le> ?d" by simp
  then have k: "int (nat (?d div ?P)) = ?d div ?P"
    using P by (simp add: pos_imp_zdiv_nonneg_iff)
  have "?d = ?P * (?d div ?P) + ?d mod ?P" by simp
  moreover have "0 \<le> ?d mod ?P" and "?d mod ?P < ?P" using P by simp_all
  ultimately have lo: "?P * (?d div ?P) \<le> ?d" and hi: "?d < ?P * (?d div ?P) + ?P"
    by linarith+
  have t: "tick_time start (nat (?d div ?P)) = start + ?P * (?d div ?P) + ?P"
    unfolding tick_time_def k by (simp add: algebra_simps)
  from hi show "now \<le> tick_time start (nat (?d div ?P))" unfolding t by linarith
  from lo show "tick_time start (nat (?d div ?P)) \<le> now + ?P" unfolding t by linarith
qed

lemma TrimSpace_HEARTBEAT: "TrimSpace ''HEARTBEAT\<newline>'' = ''HEARTBEAT''"
  by code_simp

lemma unregisterTenant_fields [simp]:
  "portPool (unregisterTenant tid s) = portPool s"
  "nextPortIndex (unregisterTenant tid s) = nextPortIndex s"
  "tenants (unregisterTenant tid s) = (tenants s)(tid := None)"
  by (auto simp: unregisterTenant_def split: option.split)

lemma unregisterTenant_available [simp]:
  "available_ports (unregisterTenant tid s) = available_ports s"
  by (simp add: available_ports_def)

lemma unregisterTenant_trace:
  "trace (unregisterTenant tid s) =
     (case tenants s tid of
        None \<Rightarrow> trace s
      | Some t \<Rightarrow> trace s @ (case Listener t of None \<Rightarrow> [] | Some l \<Rightarrow> [ListenerClose l]))"
  by (simp add: unregisterTenant_def split: option.split)

lemma registerTenant_available:
  assumes "registerTenant tid session bind now s = Inr (res, s')"
  shows "portPool s' = portPool s"
    and "nextPortIndex s' =
           (if nextPortIndex s < length (portPool s) then nextPortIndex s + 1
            else nextPortIndex s)"
  using assms
  by (auto simp: registerTenant_def Let_def split: option.splits if_splits)

lemma handleAgent_register_failure:
  assumes "0 \<notin> set (availablePorts r)"
    and "\<forall>p a. fst (handleAgent_register c first now bind w r) \<noteq> Registered p a"
  shows "mset (availablePorts (snd (handleAgent_register c first now bind w r)))
           = mset (availablePorts r)"
proof (cases "availablePorts r")
  case Nil
  then show ?thesis
    by (auto simp: handleAgent_register_def assignPort_def split: option.split)
next
  case (Cons port rest)
  with assms(1) have "port \<noteq> 0" by auto
  with Cons assms(2) show ?thesis
    by (auto simp: handleAgent_register_def assignPort_def releasePort_def Let_def
        cleanupAgent_availablePorts update_conv' split: option.split sum.split)
qed


lemma handleControlConnection_failure:
  assumes "handleControlConnection lib c session stream reg tv bind tr w s = Inr (out, s')"
    and "out = RegistrationFailed \<or> out = ResponseWriteFailed"
  shows "portPool s' = portPool s"
    and "nextPortIndex s' =
           (if nextPortIndex s < length (portPool s) then nextPortIndex s + 1
            else nextPortIndex s)"
  using assms
  by (auto simp: handleControlConnection_def respondRegistered_def Let_def
      dest: registerTenant_available
      split: option.splits sum.splits if_splits prod.splits)

lemma registerTenant_replace:
  assumes "tenants s tid = Some old" and "Listener old = Some l"
    and "registerTenant tid session bind now s = Inr (Some new, s')"
  shows "trace s' = trace s @ [ListenerClose l, Listen (AssignedPort new)]"
    and "tenants s' = (tenants s)(tid \<mapsto> new)"
    and "ID new = tid" and "ControlSession new = session" and "Listener new = bind"
    and "nextPortIndex s < length (portPool s)"
    and "AssignedPort new = portPool s ! nextPortIndex s"
    and "portPool s' = portPool s" and "nextPortIndex s' = nextPortIndex s + 1"
  using assms
  by (auto simp: registerTenant_def Let_def split: option.splits if_splits)

lemma handleControlConnection_Serving:
  assumes "handleControlConnection lib c session stream reg tv bind tr w s
             = Inr (Serving new, s')"
  shows "\<exists>regPayload s1. reg = Some regPayload
           \<and> registerTenant (TenantID regPayload) session bind tr s = Inr (Some new, s1)
           \<and> s' = emit [StreamWrite stream (RegisteredFrame (registeredPayload new))] s1"
  using assms
  by (auto simp: handleControlConnection_def respondRegistered_def Let_def
      split: option.splits sum.splits if_splits prod.splits)

lemma releaseConn_simps [simp]:
  "trace (releaseConn f) = trace f"
  "ActiveConns (tenant (releaseConn f)) = ActiveConns (tenant f) - 1"
  "ControlSession (tenant (releaseConn f)) = ControlSession (tenant f)"
  by (simp_all add: releaseConn_def)


text \<open>
  The registry of the heartbeat draft keeps its ports distinct, and a whole run of
  \<^verbatim>\<open>handleAgent\<close> (undisturbed by other handlers) returns the pool to the ports it
  had.
\<close>

lemma handleAgent_line_fields [simp]:
  "agents (handleAgent_line t line a r) = agents r"
  "availablePorts (handleAgent_line t line a r) = availablePorts r"
  by (simp_all add: handleAgent_line_def)

lemma handleAgent_lines_fields [simp]:
  "agents (foldl (\<lambda>r (t, line). handleAgent_line t line a r) r lines) = agents r"
  "availablePorts (foldl (\<lambda>r (t, line). handleAgent_line t line a r) r lines)
     = availablePorts r"
  by (induction lines arbitrary: r) (auto split: prod.splits)

lemma handleAgent_register_Registered:
  assumes "handleAgent_register c first now bind w r = (Registered port a, r')"
  shows "map_of (agents r') port = Some a"
    and "mset (availablePorts r') + {#port#} = mset (availablePorts r)"
  using assms
  by (auto simp: handleAgent_register_def assignPort_def Let_def update_conv'
      split: option.splits if_splits list.splits sum.splits)

lemma registry_distinct:
  "distinct (map fst (agents r)) \<Longrightarrow> distinct (map fst (agents (cleanupAgent port r)))"
  "distinct (map fst (agents r)) \<Longrightarrow> distinct (map fst (agents (heartbeatChecker_tick now r)))"
  "distinct (map fst (agents r))
     \<Longrightarrow> distinct (map fst (agents (snd (handleAgent_register c first t bind w r))))"
proof -
  assume d: "distinct (map fst (agents r))"
  show "distinct (map fst (agents (cleanupAgent port r)))"
    using d by (simp add: distinct_delete)
  have "distinct (map fst (agents r)) \<Longrightarrow>
      distinct (map fst (agents (foldl (\<lambda>r p. cleanupAgent p r) r ps)))" for ps r
    by (induction ps arbitrary: r) (auto simp: distinct_delete)
  with d show "distinct (map fst (agents (heartbeatChecker_tick now r)))"
    by (simp add: heartbeatChecker_tick_def)
  show "distinct (map fst (agents (snd (handleAgent_register c first t bind w r))))"
    using d
    by (auto simp: handleAgent_register_def assignPort_def releasePort_def Let_def
        distinct_update distinct_delete split: option.splits list.splits sum.splits)
qed

lemma handleAgent_pool:
  assumes "0 \<notin> set (availablePorts r)"
  shows "mset (availablePorts (handleAgent c first now bind w lines Disconnected r))
           = mset (availablePorts r)"
proof (cases "\<exists>port a. fst (handleAgent_register c first now bind w r) = Registered port a")
  case True
  then obtain port a r' where
    reg: "handleAgent_register c first now bind w r = (Registered port a, r')"
    by (cases "handleAgent_register c first now bind w r") auto
  from handleAgent_register_Registered [OF reg] show ?thesis
    by (simp add: handleAgent_def reg handleAgent_exit_def cleanupAgent_availablePorts)
next
  case False
  then have no: "\<forall>p a. fst (handleAgent_register c first now bind w r) \<noteq> Registered p a"
    by simp
  from handleAgent_register_failure [OF assms no]
  have m: "mset (availablePorts (snd (handleAgent_register c first now bind w r)))
           = mset (availablePorts r)" .
  obtain out r' where res: "handleAgent_register c first now bind w r = (out, r')"
    by (cases "handleAgent_register c first now bind w r")
  with no have "handleAgent c first now bind w lines Disconnected r = r'"
    by (cases out) (auto simp: handleAgent_def)
  with m res show ?thesis by simp
qed

lemma handleAgent_register_RegisteredD:
  assumes "handleAgent_register c first now bind w r = (Registered port a, r')"
  shows "agents r' = AList.update port a (agents r)"
    and "availablePorts r = port # availablePorts r'"
    and "\<exists>l. bind = Inr l \<and> store r' a =
           \<lparr>conn = c, assignedPort = port, listener = Some l, lastHeartbeat = now\<rparr>"
    and "trace r' = trace r @ [PoolAcquire port, Listen port,
           ConnWrite c (''OK port:'' @ fmt_d port @ ''\<newline>'')]"
  using assms
  by (auto simp: handleAgent_register_def assignPort_def Let_def
      split: option.splits if_splits list.splits sum.splits)

lemma handleAgent_line_other [simp]:
  "trace (handleAgent_line t line a r) = trace r"
  "conn (store (handleAgent_line t line a r) b) = conn (store r b)"
  "listener (store (handleAgent_line t line a r) b) = listener (store r b)"
  by (simp_all add: handleAgent_line_def)

lemma handleAgent_lines_other [simp]:
  "trace (foldl (\<lambda>r (t, line). handleAgent_line t line a r) r lines) = trace r"
  "conn (store (foldl (\<lambda>r (t, line). handleAgent_line t line a r) r lines) b)
     = conn (store r b)"
  "listener (store (foldl (\<lambda>r (t, line). handleAgent_line t line a r) r lines) b)
     = listener (store r b)"
  by (induction lines arbitrary: r) (auto split: prod.splits)

lemma handleAgent_lines_quiet:
  "\<forall>x\<in>set lines. TrimSpace (snd x) \<noteq> ''HEARTBEAT''
     \<Longrightarrow> foldl (\<lambda>r (t, line). handleAgent_line t line a r) r lines = r"
  by (induction lines arbitrary: r) (auto simp: handleAgent_line_def split: prod.splits)

lemma handleAgent_lines_last:
  assumes "lines = pre @ (t, line) # post" and "TrimSpace line = ''HEARTBEAT''"
    and "\<forall>x\<in>set post. TrimSpace (snd x) \<noteq> ''HEARTBEAT''"
  shows "lastHeartbeat (store (foldl (\<lambda>r (t, line). handleAgent_line t line a r) r lines) a)
           = t"
proof -
  let ?loop = "foldl (\<lambda>r (t, line). handleAgent_line t line a r)"
  have "?loop r lines = ?loop (handleAgent_line t line a (?loop r pre)) post"
    by (simp add: assms(1))
  also have "\<dots> = handleAgent_line t line a (?loop r pre)"
    using assms(3) by (rule handleAgent_lines_quiet)
  finally show ?thesis
    using assms(2) by (simp add: handleAgent_line_def)
qed

lemma tick_removes_stale:
  assumes "map_of (agents r) port = Some a"
    and "now - lastHeartbeat (store r a) > 120 * second" and "now \<le> tick"
  shows "map_of (agents (heartbeatChecker_tick tick r)) port = None"
proof -
  from assms(1) have "(port, a) \<in> set (agents r)" by (rule map_of_SomeD)
  with assms(2,3) have "port \<in> set (stalePorts tick r)"
    unfolding stalePorts_iff by (intro exI [of _ a]) auto
  then show ?thesis
    by (simp add: heartbeatChecker_tick_def cleanup_all_agents)
qed

lemma tick_keeps_fresh:
  assumes "distinct (map fst (agents r))" and "map_of (agents r) port = Some a"
    and "tick - lastHeartbeat (store r a) \<le> 120 * second"
  shows "map_of (agents (heartbeatChecker_tick tick r)) port = Some a"
proof -
  have "port \<notin> set (stalePorts tick r)"
  proof
    assume "port \<in> set (stalePorts tick r)"
    then obtain a' where in': "(port, a') \<in> set (agents r)"
      and st: "tick - lastHeartbeat (store r a') > 120 * second"
      unfolding stalePorts_iff by blast
    from assms(1) in' have "map_of (agents r) port = Some a'" by (rule map_of_is_SomeI)
    with assms(2) have "a' = a" by simp
    with st assms(3) show False by simp
  qed
  then show ?thesis
    using assms(2) by (simp add: heartbeatChecker_tick_def cleanup_all_agents)
qed

lemma registerTenant_SomeD:
  assumes "registerTenant tid session bind now s = Inr (Some new, s')"
  shows "nextPortIndex s < length (portPool s)"
    and "AssignedPort new = portPool s ! nextPortIndex s"
    and "tenants s' = (tenants s)(tid \<mapsto> new)"
    and "ID new = tid" and "ControlSession new = session" and "Listener new = bind"
    and "SQLPassword new = generatePassword now"
  using assms
  by (auto simp: registerTenant_def Let_def split: option.splits if_splits)

lemma apply_op_pool:
  assumes "apply_op s op = Inr s'"
  shows "portPool s' = portPool s" and "nextPortIndex s \<le> nextPortIndex s'"
  using assms
  by (cases op; auto split: sum.splits prod.splits dest: registerTenant_available)+

lemma run_ops_pool:
  "run_ops s ops = Inr s' \<Longrightarrow> portPool s' = portPool s \<and> nextPortIndex s \<le> nextPortIndex s'"
proof (induction ops arbitrary: s)
  case Nil
  then show ?case by simp
next
  case (Cons op ops)
  then obtain s1 where s1: "apply_op s op = Inr s1" and rest: "run_ops s1 ops = Inr s'"
    by (auto split: sum.splits)
  from Cons.IH [OF rest] apply_op_pool [OF s1] show ?case by simp
qed

lemma handed_out_not_free:
  assumes "distinct pool" and "p \<in> set (take n pool)" and "n \<le> m"
  shows "p \<notin> set (drop m pool)"
proof -
  from assms(1) have "distinct (take n pool @ drop n pool)" by simp
  then have "set (take n pool) \<inter> set (drop n pool) = {}"
    unfolding distinct_append by blast
  moreover from assms(3) have "set (drop m pool) \<subseteq> set (drop n pool)"
    by (rule set_drop_subset_set_drop)
  ultimately show ?thesis using assms(2) by blast
qed

lemma handed_out_never_again:
  assumes "distinct (portPool s)" and "p \<in> set (take (nextPortIndex s) (portPool s))"
    and "run_ops s ops = Inr s'"
    and "registerTenant tid session bind now s' = Inr (Some new, s'')"
  shows "AssignedPort new \<noteq> p"
proof -
  from run_ops_pool [OF assms(3)]
  have pool: "portPool s' = portPool s" and le: "nextPortIndex s \<le> nextPortIndex s'"
    by auto
  from registerTenant_SomeD(1,2) [OF assms(4)]
  have "AssignedPort new \<in> set (drop (nextPortIndex s') (portPool s))"
    unfolding pool by (metis Cons_nth_drop_Suc list.set_intros(1))
  with handed_out_not_free [OF assms(1,2) le] show ?thesis by auto
qed

lemma keepAlive_failed_fields [simp]:
  "portPool (keepAlive_failed c session stream t s) = portPool s"
  "nextPortIndex (keepAlive_failed c session stream t s) = nextPortIndex s"
  "tenants (keepAlive_failed c session stream t s) = (tenants s)(ID t := None)"
  by (simp_all add: keepAlive_failed_def)

lemma acceptTenantConnections_exit_fields [simp]:
  "portPool (acceptTenantConnections_exit t s) = portPool s"
  "nextPortIndex (acceptTenantConnections_exit t s) = nextPortIndex s"
  "tenants (acceptTenantConnections_exit t s) = (tenants s)(ID t := None)"
  by (simp_all add: acceptTenantConnections_exit_def)



text \<open>
  In every state that schedules of \<^verbatim>\<open>registerTenant\<close> and
  \<^verbatim>\<open>unregisterTenant\<close> reach from \<^verbatim>\<open>NewRelayServer\<close>, the pool has no
  duplicates and the port of every registered tenant lies before the cursor.
\<close>

lemma apply_op_tenant_ports:
  assumes "apply_op s op = Inr s'"
    and "\<forall>tid t. tenants s tid = Some t \<longrightarrow>
           AssignedPort t \<in> set (take (nextPortIndex s) (portPool s))"
  shows "\<forall>tid t. tenants s' tid = Some t \<longrightarrow>
           AssignedPort t \<in> set (take (nextPortIndex s') (portPool s'))"
proof (intro allI impI)
  fix tid t
  assume t: "tenants s' tid = Some t"
  from apply_op_pool [OF assms(1)]
  have pool: "portPool s' = portPool s" and le: "nextPortIndex s \<le> nextPortIndex s'"
    by auto
  from le have mono: "set (take (nextPortIndex s) (portPool s))
      \<subseteq> set (take (nextPortIndex s') (portPool s))"
    by (rule set_take_subset_set_take)
  show "AssignedPort t \<in> set (take (nextPortIndex s') (portPool s'))"
  proof (cases op)
    case (Unregister tid')
    with assms(1) t have "tenants s tid = Some t"
      by (auto split: if_splits)
    with assms(2) mono show ?thesis unfolding pool by blast
  next
    case (Register tid' session bind now)
    with assms(1) obtain res where
      reg: "registerTenant tid' session bind now s = Inr (res, s')"
      by (auto split: sum.splits prod.splits)
    show ?thesis
    proof (cases res)
      case None
      with reg have "tenants s' = tenants s"
        by (auto simp: registerTenant_def Let_def split: option.splits if_splits)
      with t assms(2) mono show ?thesis unfolding pool by auto
    next
      case (Some new)
      note D = registerTenant_SomeD [OF reg [unfolded Some]]
      from registerTenant_available [OF reg] D(1)
      have idx: "nextPortIndex s' = Suc (nextPortIndex s)" by simp
      show ?thesis
      proof (cases "tid = tid'")
        case True
        with t D(3) have "t = new" by simp
        with D(1,2) show ?thesis
          unfolding pool idx by (simp add: take_Suc_conv_app_nth)
      next
        case False
        with t D(3) have "tenants s tid = Some t" by simp
        with assms(2) mono show ?thesis unfolding pool by blast
      qed
    qed
  qed
qed

lemma reachable_tenant_ports:
  assumes "NewRelayServer cfg secret = Inr s0" and "run_ops s0 ops = Inr s"
    and "tenants s tid = Some t"
  shows "distinct (portPool s)"
    and "AssignedPort t \<in> set (take (nextPortIndex s) (portPool s))"
proof -
  from assms(1) have s0: "portPool s0 = [TenantPortStart cfg .. TenantPortEnd cfg]"
    "tenants s0 = (\<lambda>_. None)"
    by (auto simp: NewRelayServer_def split: if_splits)
  from run_ops_pool [OF assms(2)] s0(1) show "distinct (portPool s)" by simp
  have "run_ops s1 ops = Inr s \<Longrightarrow>
      \<forall>tid t. tenants s1 tid = Some t \<longrightarrow>
         AssignedPort t \<in> set (take (nextPortIndex s1) (portPool s1)) \<Longrightarrow>
      \<forall>tid t. tenants s tid = Some t \<longrightarrow>
         AssignedPort t \<in> set (take (nextPortIndex s) (portPool s))" for s1
  proof (induction ops arbitrary: s1)
    case Nil
    then show ?case by simp
  next
    case (Cons op ops)
    from Cons.prems(1) obtain s2 where
      s2: "apply_op s1 op = Inr s2" and rest: "run_ops s2 ops = Inr s"
      by (auto split: sum.splits)
    from Cons.IH [OF rest apply_op_tenant_ports [OF s2 Cons.prems(2)]] show ?case .
  qed
  from this [OF assms(2)] s0(2) assms(3)
  show "AssignedPort t \<in> set (take (nextPortIndex s) (portPool s))" by simp
qed

lemma registerTenant_trace:
  assumes "registerTenant tid session bind now s = Inr (res, s')"
  shows "\<exists>es. trace s' = trace s @ es"
  using assms
  by (auto simp: registerTenant_def Let_def split: option.splits if_splits)

lemma unregisterTenant_trace_ext:
  "\<exists>es. trace (unregisterTenant tid s) = trace s @ es"
  by (simp add: unregisterTenant_trace split: option.splits)

lemma apply_op_trace:
  assumes "apply_op s op = Inr s'"
  shows "\<exists>es. trace s' = trace s @ es"
proof (cases op)
  case (Register tid session bind now)
  with assms obtain res where "registerTenant tid session bind now s = Inr (res, s')"
    by (auto split: sum.splits prod.splits)
  then show ?thesis by (rule registerTenant_trace)
next
  case (Unregister tid)
  with assms show ?thesis by (auto simp: unregisterTenant_trace_ext)
qed

lemma run_ops_trace:
  "run_ops s ops = Inr s' \<Longrightarrow> \<exists>es. trace s' = trace s @ es"
proof (induction ops arbitrary: s)
  case Nil
  then show ?case by simp
next
  case (Cons op ops)
  then obtain s1 where s1: "apply_op s op = Inr s1" and rest: "run_ops s1 ops = Inr s'"
    by (auto split: sum.splits)
  from s1 obtain es1 where "trace s1 = trace s @ es1"
    using apply_op_trace by blast
  moreover from Cons.IH [OF rest] obtain es2 where "trace s' = trace s1 @ es2" by blast
  ultimately show ?case by simp
qed

lemma respondRegistered_facts:
  "portPool (snd (respondRegistered c session stream t w s)) = portPool s"
  "nextPortIndex (snd (respondRegistered c session stream t w s)) = nextPortIndex s"
  "\<exists>es. trace (snd (respondRegistered c session stream t w s))
     = trace s @ StreamWrite stream (RegisteredFrame (registeredPayload t)) # es"
  by (simp_all add: respondRegistered_def Let_def unregisterTenant_trace split: option.splits)

lemmas sample_defs = sample_claims_def sample_lib_def sample_config_def sample_agents_def
  sample_register_def

lemmas eval_defs = handleAgent_register_def assignPort_def releasePort_def cleanupAgent_def
  handleControlConnection_def respondRegistered_def acceptTenantConnections_exit_def
  VerifyJWT_def computeSignature_def registerTenant_def
  unregisterTenant_def registeredPayload_def generatePassword_def NewRelayServer_def
  available_ports_def handleConnection_def NewSimpleRelay_def fmt_d_def digits10.simps
  Let_def upto.simps emit_def

section \<open>Port pool of the heartbeat draft\<close>

text \<open>
  C8. Acquire/release round-trip: when the pool has at least one available port,
  \<^verbatim>\<open>assignPort\<close> followed by \<^verbatim>\<open>releasePort\<close> of the port it returned
  leaves the set of free ports as it was (the port moves from the front of the queue
  to its back; the registry and the store of agents are untouched).
\<close>

theorem assignPort_releasePort_roundtrip:
  assumes "availablePorts r \<noteq> []"
  shows "set (availablePorts (releasePort (fst (assignPort r)) (snd (assignPort r))))
           = set (availablePorts r)
       \<and> length (availablePorts (releasePort (fst (assignPort r)) (snd (assignPort r))))
           = length (availablePorts r)
       \<and> agents (releasePort (fst (assignPort r)) (snd (assignPort r))) = agents r"
proof (cases "availablePorts r")
  case Nil
  with assms show ?thesis by simp
next
  case (Cons port rest)
  then show ?thesis
    by (auto simp: assignPort_def releasePort_def)
qed

theorem assignPort_releasePort_roundtrip_witness:
  "availablePorts \<lparr>trace = [], agents = [], availablePorts = [50000, 50001],
       store = (\<lambda>_. \<lparr>conn = 0, assignedPort = 0, listener = None, lastHeartbeat = 0\<rparr>), nextAddr = 0\<rparr> \<noteq> []
   \<and> set (availablePorts
        (releasePort
          (fst (assignPort \<lparr>trace = [], agents = [], availablePorts = [50000, 50001],
             store = (\<lambda>_. \<lparr>conn = 0, assignedPort = 0, listener = None, lastHeartbeat = 0\<rparr>), nextAddr = 0\<rparr>))
          (snd (assignPort \<lparr>trace = [], agents = [], availablePorts = [50000, 50001],
             store = (\<lambda>_. \<lparr>conn = 0, assignedPort = 0, listener = None, lastHeartbeat = 0\<rparr>), nextAddr = 0\<rparr>))))
      = {50000, 50001}"
  using assignPort_releasePort_roundtrip
    [of "\<lparr>trace = [], agents = [], availablePorts = [50000, 50001],
          store = (\<lambda>_. \<lparr>conn = 0, assignedPort = 0, listener = None, lastHeartbeat = 0\<rparr>), nextAddr = 0\<rparr>"]
  by simp

section \<open>Liveness supervision in the heartbeat draft\<close>

text \<open>
  C7. Heartbeat staleness bound. Let \<^verbatim>\<open>handleAgent\<close> have registered an agent on
  \<open>port\<close> at time \<open>t0\<close> (in a registry with distinct ports, as a Go map has), let its
  read loop have read the lines \<open>lines\<close>, and let it wait for the next line. The agent
  is in the registry, and its \<^verbatim>\<open>lastHeartbeat\<close> is the time at which the loop read
  the last line that trims to \<^verbatim>\<open>HEARTBEAT\<close> (\<open>t0\<close> if it read none): every
  such line resets it. If at time \<open>now\<close> that is more than 120 seconds ago, the tick
  of \<^verbatim>\<open>heartbeatChecker\<close> that comes at any \<open>tick \<ge> now\<close> removes the agent from
  the registry, and a ticker started at or before \<open>now\<close> has such a tick no later than
  60 seconds after \<open>now\<close>. A tick that comes no more than 120 seconds after the last
  heartbeat leaves the agent in the registry.
\<close>

theorem heartbeat_staleness_bound:
  fixes lines :: "(int \<times> string) list"
  assumes "distinct (map fst (agents r))"
    and "fst (handleAgent_register c first t0 bind True r) = Registered port a"
  defines "r' \<equiv> handleAgent c first t0 bind True lines Reading r"
  shows "map_of (agents r') port = Some a
       \<and> ((\<forall>x\<in>set lines. TrimSpace (snd x) \<noteq> ''HEARTBEAT'') \<longrightarrow>
            lastHeartbeat (store r' a) = t0)
       \<and> (lines = pre @ (t, line) # post \<and> TrimSpace line = ''HEARTBEAT''
            \<and> (\<forall>x\<in>set post. TrimSpace (snd x) \<noteq> ''HEARTBEAT'') \<longrightarrow>
            lastHeartbeat (store r' a) = t)
       \<and> (now - lastHeartbeat (store r' a) > 120 * second \<and> now \<le> tick \<longrightarrow>
            map_of (agents (heartbeatChecker_tick tick r')) port = None)
       \<and> (now - lastHeartbeat (store r' a) > 120 * second \<and> start \<le> now \<longrightarrow>
            (\<exists>k. now \<le> tick_time start k \<and> tick_time start k \<le> now + 60 * second
               \<and> map_of (agents (heartbeatChecker_tick (tick_time start k) r')) port = None))
       \<and> (tick - lastHeartbeat (store r' a) \<le> 120 * second \<longrightarrow>
            map_of (agents (heartbeatChecker_tick tick r')) port = Some a)"
proof -
  obtain r1 where reg: "handleAgent_register c first t0 bind True r = (Registered port a, r1)"
    using assms(2) by (cases "handleAgent_register c first t0 bind True r") auto
  note regD = handleAgent_register_RegisteredD [OF reg]
  have r': "r' = foldl (\<lambda>r (t, line). handleAgent_line t line a r) r1 lines"
    by (simp add: r'_def handleAgent_def reg)
  have ag: "agents r' = AList.update port a (agents r)"
    by (simp add: r' regD(1))
  then have found: "map_of (agents r') port = Some a"
    by (simp add: update_conv')
  from ag assms(1) have dist: "distinct (map fst (agents r'))"
    by (simp add: distinct_update)
  from regD(3) have t0: "lastHeartbeat (store r1 a) = t0" by auto
  have quiet: "lastHeartbeat (store r' a) = t0"
    if "\<forall>x\<in>set lines. TrimSpace (snd x) \<noteq> ''HEARTBEAT''"
    using that by (simp add: r' handleAgent_lines_quiet t0)
  have beat: "lastHeartbeat (store r' a) = t"
    if "lines = pre @ (t, line) # post \<and> TrimSpace line = ''HEARTBEAT''
            \<and> (\<forall>x\<in>set post. TrimSpace (snd x) \<noteq> ''HEARTBEAT'')"
    unfolding r' using that by (intro handleAgent_lines_last [of lines pre t line post]) auto
  have timed_out: "\<exists>k. now \<le> tick_time start k \<and> tick_time start k \<le> now + 60 * second
               \<and> map_of (agents (heartbeatChecker_tick (tick_time start k) r')) port = None"
    if stale: "now - lastHeartbeat (store r' a) > 120 * second \<and> start \<le> now"
  proof -
    let ?k = "nat ((now - start) div (60 * second))"
    from stale have k: "now \<le> tick_time start ?k" "tick_time start ?k \<le> now + 60 * second"
      by (simp_all add: next_tick)
    with stale found have "map_of (agents (heartbeatChecker_tick (tick_time start ?k) r')) port
        = None"
      by (intro tick_removes_stale [of r' port a now]) auto
    with k show ?thesis by blast
  qed
  show ?thesis
    using found quiet beat timed_out tick_removes_stale [OF found, of now tick]
      tick_keeps_fresh [OF dist found, of tick]
    by blast
qed

theorem heartbeat_staleness_bound_witness:
  "distinct (map fst (agents (sample_agents [50001, 50002])))
   \<and> handleAgent_register 8 (Some ''REGISTER\<newline>'') 0 (Inr 4) True
        (sample_agents [50001, 50002]) =
      (Registered 50001 1,
       handleAgent 8 (Some ''REGISTER\<newline>'') 0 (Inr 4) True [] Reading
         (sample_agents [50001, 50002]))
   \<and> map_of (agents (heartbeatChecker_tick (180 * second)
        (handleAgent 8 (Some ''REGISTER\<newline>'') 0 (Inr 4) True [] Reading
           (sample_agents [50001, 50002])))) 50001 = None
   \<and> lastHeartbeat (store
        (handleAgent 8 (Some ''REGISTER\<newline>'') 0 (Inr 4) True
           [(30 * second, ''HEARTBEAT\<newline>''), (60 * second, ''STATUS\<newline>'')] Reading
           (sample_agents [50001, 50002])) 1) = 30 * second
   \<and> map_of (agents (heartbeatChecker_tick (150 * second)
        (handleAgent 8 (Some ''REGISTER\<newline>'') 0 (Inr 4) True
           [(30 * second, ''HEARTBEAT\<newline>''), (60 * second, ''STATUS\<newline>'')] Reading
           (sample_agents [50001, 50002])))) 50001 = Some 1"
proof -
  have status: "TrimSpace ''STATUS\<newline>'' = ''STATUS''" by code_simp
  have reg: "handleAgent_register 8 (Some ''REGISTER\<newline>'') 0 (Inr 4) True
        (sample_agents [50001, 50002]) =
      (Registered 50001 1,
       handleAgent 8 (Some ''REGISTER\<newline>'') 0 (Inr 4) True [] Reading
         (sample_agents [50001, 50002]))"
    by (simp add: handleAgent_def handleAgent_register_def assignPort_def Let_def
        TrimSpace_REGISTER_line sample_agents_def)
  have d: "distinct (map fst (agents (sample_agents [50001, 50002])))"
    by (simp add: sample_agents_def)
  have r: "fst (handleAgent_register 8 (Some ''REGISTER\<newline>'') 0 (Inr 4) True
        (sample_agents [50001, 50002])) = Registered 50001 1"
    by (simp add: reg)
  have quiet: "map_of (agents (heartbeatChecker_tick (180 * second)
        (handleAgent 8 (Some ''REGISTER\<newline>'') 0 (Inr 4) True [] Reading
           (sample_agents [50001, 50002])))) 50001 = None"
    using heartbeat_staleness_bound [OF d r, where lines = "[]" and now = "121 * second"
        and tick = "180 * second"]
    by (simp add: second_def)
  have beat: "lastHeartbeat (store
        (handleAgent 8 (Some ''REGISTER\<newline>'') 0 (Inr 4) True
           [(30 * second, ''HEARTBEAT\<newline>''), (60 * second, ''STATUS\<newline>'')] Reading
           (sample_agents [50001, 50002])) 1) = 30 * second
     \<and> map_of (agents (heartbeatChecker_tick (150 * second)
        (handleAgent 8 (Some ''REGISTER\<newline>'') 0 (Inr 4) True
           [(30 * second, ''HEARTBEAT\<newline>''), (60 * second, ''STATUS\<newline>'')] Reading
           (sample_agents [50001, 50002])))) 50001 = Some 1"
    using heartbeat_staleness_bound [OF d r,
        where lines = "[(30 * second, ''HEARTBEAT\<newline>''), (60 * second, ''STATUS\<newline>'')]"
        and pre = "[]" and t = "30 * second" and line = "''HEARTBEAT\<newline>''"
        and post = "[(60 * second, ''STATUS\<newline>'')]" and tick = "150 * second"]
    by (simp add: TrimSpace_HEARTBEAT status second_def)
  from d reg quiet beat show ?thesis by simp
qed

section \<open>Pool exhaustion\<close>

text \<open>
  C6. Pool-exhaustion reply, as the code has it. When a line that trims to
  \<^verbatim>\<open>REGISTER\<close> arrives and no port is free, the heartbeat draft
  (\<^verbatim>\<open>handleAgent\<close>) writes exactly \<^verbatim>\<open>ERROR no available ports\<close> and a
  newline, and the simple draft (\<^verbatim>\<open>handleConnection\<close>) writes exactly
  \<^verbatim>\<open>ERROR No ports available\<close> and a newline; each then closes the connection, and
  the registry and the pool are left as they were.
\<close>

theorem pool_exhaustion_reply:
  assumes "TrimSpace line = ''REGISTER''"
  shows "(availablePorts r = [] \<longrightarrow>
            handleAgent_register c (Some line) now bind write_ok r =
              (NoAvailablePorts,
               emit [ConnWrite c ''ERROR no available ports\<newline>'', ConnClose c] r)
          \<and> agents (snd (handleAgent_register c (Some line) now bind write_ok r)) = agents r
          \<and> availablePorts (snd (handleAgent_register c (Some line) now bind write_ok r)) = [])
       \<and> (nextPortIndex_s s \<ge> length (portPool_s s) \<longrightarrow>
            handleConnection c (Some line) write_ok mux bind' s =
              (NoPortsAvailable,
               emit [ConnWrite c ''ERROR No ports available\<newline>'', ConnClose c] s)
          \<and> tenants_s (snd (handleConnection c (Some line) write_ok mux bind' s)) = tenants_s s
          \<and> nextPortIndex_s (snd (handleConnection c (Some line) write_ok mux bind' s))
               = nextPortIndex_s s)"
  using assms by (simp add: handleAgent_register_def assignPort_def handleConnection_def)

theorem pool_exhaustion_reply_witness:
  "TrimSpace ''REGISTER\<newline>'' = ''REGISTER''
   \<and> handleAgent_register 7 (Some ''REGISTER\<newline>'') 1000 (Inr 3) True
       \<lparr>trace = [], agents = [(50000, 0)], availablePorts = [],
         store = (\<lambda>_. \<lparr>conn = 5, assignedPort = 50000, listener = Some 2, lastHeartbeat = 0\<rparr>),
         nextAddr = 1\<rparr>
     = (NoAvailablePorts,
        \<lparr>trace = [ConnWrite 7 ''ERROR no available ports\<newline>'', ConnClose 7],
         agents = [(50000, 0)], availablePorts = [],
         store = (\<lambda>_. \<lparr>conn = 5, assignedPort = 50000, listener = Some 2, lastHeartbeat = 0\<rparr>),
         nextAddr = 1\<rparr>)
   \<and> fst (handleConnection 7 (Some ''REGISTER\<newline>'') True (Some 1) (Some 3)
       \<lparr>trace = [], tenants_s = (\<lambda>_. None), portPool_s = [50000], nextPortIndex_s = 1\<rparr>)
     = NoPortsAvailable"
  using pool_exhaustion_reply [of "''REGISTER\<newline>''"
       "\<lparr>trace = [], agents = [(50000, 0)], availablePorts = [],
         store = (\<lambda>_. \<lparr>conn = 5, assignedPort = 50000, listener = Some 2, lastHeartbeat = 0\<rparr>),
         nextAddr = 1\<rparr>" 7 1000 "Inr 3" True
       "\<lparr>trace = [], tenants_s = (\<lambda>_. None), portPool_s = [50000], nextPortIndex_s = 1\<rparr>"
       "Some 1" "Some 3"]
  by (simp add: TrimSpace_REGISTER_line emit_def)

theorem pool_exhaustion_reply_counterexample:
  "trace (snd (handleConnection 2 (Some ''REGISTER'') True (Some 7) (Some 8)
      (snd (handleConnection 1 (Some ''REGISTER'') True (Some 5) (Some 6)
         (projr (NewSimpleRelay 50000 50000))))))
   = [ConnWrite 1 ''OK port:50000\<newline>'', Listen 50000,
      ConnWrite 2 ''ERROR No ports available\<newline>'', ConnClose 2]
   \<and> ''ERROR No ports available\<newline>'' \<noteq> ''ERROR no available ports\<newline>''"
  by (simp add: handleConnection_def NewSimpleRelay_def TrimSpace_REGISTER upto.simps
      fmt_d_def digits10.simps Let_def)

section \<open>Teardown\<close>





section \<open>Registration failures and the pool\<close>

text \<open>
  C3. Registration failure and the pool, as the code has it. In the heartbeat draft
  (whose pool does not hold port 0, the value \<^verbatim>\<open>assignPort\<close> returns for an empty
  pool) every handshake that does not end with a registered agent leaves the number and
  the set of free ports as they were: a failed bind calls \<^verbatim>\<open>releasePort\<close>, a failed
  write of the \<^verbatim>\<open>OK\<close> line calls \<^verbatim>\<open>cleanupAgent\<close>. In the authenticated draft
  and in the simple draft the pool is a cursor that only moves forward: when a port was
  available, a handshake that fails at the bind, at the mux session or at the write of
  the reply leaves one port fewer available.
\<close>

theorem registration_failure_pool:
  "(0 \<notin> set (availablePorts r)
      \<and> (\<forall>p a. fst (handleAgent_register c first now bind w r) \<noteq> Registered p a) \<longrightarrow>
      length (availablePorts (snd (handleAgent_register c first now bind w r)))
        = length (availablePorts r)
      \<and> set (availablePorts (snd (handleAgent_register c first now bind w r)))
        = set (availablePorts r))
   \<and> (nextPortIndex s < length (portPool s) \<longrightarrow>
       (case handleControlConnection lib c session stream reg tv bindB tr wB s of
          Inl p \<Rightarrow> True
        | Inr (out, s') \<Rightarrow>
            out = RegistrationFailed \<or> out = ResponseWriteFailed \<longrightarrow>
            available_ports s' = available_ports s - 1))
   \<and> (fst (handleConnection c first' wS mux bindS ss) = ResponseFailed_s
      \<or> fst (handleConnection c first' wS mux bindS ss) = SessionFailed
      \<or> fst (handleConnection c first' wS mux bindS ss) = ListenFailed \<longrightarrow>
      nextPortIndex_s ss < length (portPool_s ss)
      \<and> nextPortIndex_s (snd (handleConnection c first' wS mux bindS ss))
           = nextPortIndex_s ss + 1
      \<and> portPool_s (snd (handleConnection c first' wS mux bindS ss)) = portPool_s ss
      \<and> tenants_s (snd (handleConnection c first' wS mux bindS ss)) = tenants_s ss)"
proof (intro conjI impI)
  assume a: "0 \<notin> set (availablePorts r)
      \<and> (\<forall>p a. fst (handleAgent_register c first now bind w r) \<noteq> Registered p a)"
  then have m: "mset (availablePorts (snd (handleAgent_register c first now bind w r)))
           = mset (availablePorts r)"
    by (intro handleAgent_register_failure) auto
  from m show "length (availablePorts (snd (handleAgent_register c first now bind w r)))
        = length (availablePorts r)"
    by (rule mset_eq_length)
  from m show "set (availablePorts (snd (handleAgent_register c first now bind w r)))
        = set (availablePorts r)"
    by (rule mset_eq_setD)
next
  assume b: "nextPortIndex s < length (portPool s)"
  show "case handleControlConnection lib c session stream reg tv bindB tr wB s of
          Inl p \<Rightarrow> True
        | Inr (out, s') \<Rightarrow>
            out = RegistrationFailed \<or> out = ResponseWriteFailed \<longrightarrow>
            available_ports s' = available_ports s - 1"
  proof (cases "handleControlConnection lib c session stream reg tv bindB tr wB s")
    case (Inl p)
    then show ?thesis by simp
  next
    case (Inr res)
    obtain out s' where res: "res = (out, s')" by (cases res)
    show ?thesis
    proof (cases "out = RegistrationFailed \<or> out = ResponseWriteFailed")
      case True
      from handleControlConnection_failure [OF Inr [unfolded res] True] b
      have "portPool s' = portPool s" and "nextPortIndex s' = nextPortIndex s + 1"
        by auto
      then show ?thesis by (simp add: Inr res available_ports_def)
    next
      case False
      then show ?thesis by (simp add: Inr res)
    qed
  qed
next
  assume f: "fst (handleConnection c first' wS mux bindS ss) = ResponseFailed_s
      \<or> fst (handleConnection c first' wS mux bindS ss) = SessionFailed
      \<or> fst (handleConnection c first' wS mux bindS ss) = ListenFailed"
  then show "nextPortIndex_s ss < length (portPool_s ss)"
    by (auto simp: handleConnection_def Let_def split: option.splits if_splits)
  from f show "nextPortIndex_s (snd (handleConnection c first' wS mux bindS ss))
           = nextPortIndex_s ss + 1"
    by (auto simp: handleConnection_def Let_def split: option.splits if_splits)
  from f show "portPool_s (snd (handleConnection c first' wS mux bindS ss)) = portPool_s ss"
    by (auto simp: handleConnection_def Let_def split: option.splits if_splits)
  from f show "tenants_s (snd (handleConnection c first' wS mux bindS ss)) = tenants_s ss"
    by (auto simp: handleConnection_def Let_def split: option.splits if_splits)
qed

theorem registration_failure_pool_witness:
  "fst (handleAgent_register 8 (Some ''REGISTER\<newline>'') 1000 (Inl ''address already in use'')
          True (sample_agents [50001, 50002])) = BindFailed
   \<and> availablePorts (snd (handleAgent_register 8 (Some ''REGISTER\<newline>'') 1000
          (Inl ''address already in use'') True (sample_agents [50001, 50002])))
       = [50002, 50001]
   \<and> (case handleControlConnection (sample_lib (sample_claims ''tenant-0001'' 0)) 1 2 3
             (Some (sample_register ''tenant-0001'')) 50 (Some 10) 60 False
             (projr (NewRelayServer (sample_config 50000 50001 10) ''k'')) of
         Inl p \<Rightarrow> False
       | Inr (out, s') \<Rightarrow> out = ResponseWriteFailed \<and> available_ports s' = 1)
   \<and> fst (handleConnection 1 (Some ''REGISTER'') False (Some 5) (Some 6)
          (projr (NewSimpleRelay 50000 50001))) = ResponseFailed_s
   \<and> nextPortIndex_s (snd (handleConnection 1 (Some ''REGISTER'') False (Some 5) (Some 6)
          (projr (NewSimpleRelay 50000 50001)))) = 1"
  using registration_failure_pool [where r = "sample_agents [50001, 50002]" and c = 8
      and first = "Some ''REGISTER\<newline>''" and now = 1000
      and bind = "Inl ''address already in use''" and w = True
      and s = "projr (NewRelayServer (sample_config 50000 50001 10) ''k'')"
      and lib = "sample_lib (sample_claims ''tenant-0001'' 0)" and session = 2 and stream = 3
      and reg = "Some (sample_register ''tenant-0001'')" and tv = 50 and bindB = "Some 10"
      and tr = 60 and wB = False
      and first' = "Some ''REGISTER''" and wS = False and mux = "Some 5" and bindS = "Some 6"
      and ss = "projr (NewSimpleRelay 50000 50001)"]
  by (simp add: eval_defs sample_defs TrimSpace_REGISTER TrimSpace_REGISTER_line)

theorem registration_failure_pool_counterexample:
  "available_ports (projr (NewRelayServer (sample_config 50000 50001 10) ''k'')) = 2
   \<and> (case handleControlConnection (sample_lib (sample_claims ''tenant-0001'' 0)) 1 2 3
             (Some (sample_register ''tenant-0001'')) 50 None 60 True
             (projr (NewRelayServer (sample_config 50000 50001 10) ''k'')) of
         Inl p \<Rightarrow> False
       | Inr (out, s') \<Rightarrow>
           out = RegistrationFailed \<and> tenants s' ''tenant-0001'' = None
           \<and> available_ports s' = 1
           \<and> trace s' =
               [Listen 50000,
                StreamWrite 3 (ErrorFrame ''REGISTRATION_FAILED'' (Text ''Failed to allocate port'')),
                StreamClose 3, SessionClose 2, ConnClose 1])"
  by (simp add: eval_defs sample_defs)

section \<open>Re-registration in the authenticated draft\<close>

text \<open>
  C1. Re-registration, as the code has it. When \<^verbatim>\<open>registerTenant\<close> is called for a
  tenant that is already in the registry (with a listener) and succeeds, the first
  thing it does is to close the previous session's public listener; it then binds the
  next port of the pool and, before it returns, puts the new session in the registry
  in place of the previous one. The cursor of the pool has moved on by one, so one port
  fewer is available. The handler writes the \<^verbatim>\<open>REGISTERED\<close> frame after that
  return: whatever registrations and unregistrations other goroutines get in
  meanwhile (the forwarder of the previous session unregisters the tenant id once its
  listener is closed), the close of the previous listener and the bind of the new port
  precede the frame. The previous session's port is never returned: with a pool
  without duplicates and that port before the cursor, the new port is another one and
  the previous port is not among the ports still to be handed out.
\<close>

theorem reregistration_replacement:
  "tenants s tid = Some old \<and> Listener old = Some l \<longrightarrow>
     (case registerTenant tid session bind tr s of
        Inr (Some new, s1) \<Rightarrow>
          take (Suc (length (trace s))) (trace s1) = trace s @ [ListenerClose l]
          \<and> Listen (AssignedPort new) \<in> set (drop (Suc (length (trace s))) (trace s1))
          \<and> tenants s1 tid = Some new
          \<and> ID new = tid \<and> ControlSession new = session \<and> Listener new = bind
          \<and> AssignedPort new = portPool s ! nextPortIndex s
          \<and> portPool s1 = portPool s \<and> nextPortIndex s1 = nextPortIndex s + 1
          \<and> available_ports s1 = available_ports s - 1
          \<and> (case run_ops s1 ops of
               Inl p \<Rightarrow> True
             | Inr sX \<Rightarrow>
                 take (length (trace s1))
                    (trace (snd (respondRegistered c session stream new w sX))) = trace s1
                 \<and> StreamWrite stream (RegisteredFrame (registeredPayload new))
                     \<in> set (drop (length (trace s1))
                          (trace (snd (respondRegistered c session stream new w sX))))
                 \<and> portPool (snd (respondRegistered c session stream new w sX)) = portPool s
                 \<and> nextPortIndex s
                     < nextPortIndex (snd (respondRegistered c session stream new w sX))
                 \<and> (distinct (portPool s)
                      \<and> AssignedPort old \<in> set (take (nextPortIndex s) (portPool s)) \<longrightarrow>
                      AssignedPort new \<noteq> AssignedPort old
                      \<and> AssignedPort old
                          \<notin> set (drop (nextPortIndex
                                   (snd (respondRegistered c session stream new w sX)))
                                 (portPool s))))
      | _ \<Rightarrow> True)"
proof (intro impI)
  assume pre: "tenants s tid = Some old \<and> Listener old = Some l"
  then have old: "tenants s tid = Some old" and l: "Listener old = Some l" by auto
  show "case registerTenant tid session bind tr s of
        Inr (Some new, s1) \<Rightarrow>
          take (Suc (length (trace s))) (trace s1) = trace s @ [ListenerClose l]
          \<and> Listen (AssignedPort new) \<in> set (drop (Suc (length (trace s))) (trace s1))
          \<and> tenants s1 tid = Some new
          \<and> ID new = tid \<and> ControlSession new = session \<and> Listener new = bind
          \<and> AssignedPort new = portPool s ! nextPortIndex s
          \<and> portPool s1 = portPool s \<and> nextPortIndex s1 = nextPortIndex s + 1
          \<and> available_ports s1 = available_ports s - 1
          \<and> (case run_ops s1 ops of
               Inl p \<Rightarrow> True
             | Inr sX \<Rightarrow>
                 take (length (trace s1))
                    (trace (snd (respondRegistered c session stream new w sX))) = trace s1
                 \<and> StreamWrite stream (RegisteredFrame (registeredPayload new))
                     \<in> set (drop (length (trace s1))
                          (trace (snd (respondRegistered c session stream new w sX))))
                 \<and> portPool (snd (respondRegistered c session stream new w sX)) = portPool s
                 \<and> nextPortIndex s
                     < nextPortIndex (snd (respondRegistered c session stream new w sX))
                 \<and> (distinct (portPool s)
                      \<and> AssignedPort old \<in> set (take (nextPortIndex s) (portPool s)) \<longrightarrow>
                      AssignedPort new \<noteq> AssignedPort old
                      \<and> AssignedPort old
                          \<notin> set (drop (nextPortIndex
                                   (snd (respondRegistered c session stream new w sX)))
                                 (portPool s))))
      | _ \<Rightarrow> True"
  proof (cases "registerTenant tid session bind tr s")
    case (Inl p)
    then show ?thesis by simp
  next
    case (Inr res)
    obtain r s1 where res: "res = (r, s1)" by (cases res)
    show ?thesis
    proof (cases r)
      case None
      then show ?thesis by (simp add: Inr res)
    next
      case (Some new)
      have reg: "registerTenant tid session bind tr s = Inr (Some new, s1)"
        by (simp add: Inr res Some)
      note facts = registerTenant_replace [OF old l reg]
      have later: "take (length (trace s1))
                    (trace (snd (respondRegistered c session stream new w sX))) = trace s1
                 \<and> StreamWrite stream (RegisteredFrame (registeredPayload new))
                     \<in> set (drop (length (trace s1))
                          (trace (snd (respondRegistered c session stream new w sX))))
                 \<and> portPool (snd (respondRegistered c session stream new w sX)) = portPool s
                 \<and> nextPortIndex s
                     < nextPortIndex (snd (respondRegistered c session stream new w sX))
                 \<and> (distinct (portPool s)
                      \<and> AssignedPort old \<in> set (take (nextPortIndex s) (portPool s)) \<longrightarrow>
                      AssignedPort new \<noteq> AssignedPort old
                      \<and> AssignedPort old
                          \<notin> set (drop (nextPortIndex
                                   (snd (respondRegistered c session stream new w sX)))
                                 (portPool s)))"
        if run: "run_ops s1 ops = Inr sX" for sX
      proof -
        from run_ops_trace [OF run] obtain es where es: "trace sX = trace s1 @ es" by blast
        from respondRegistered_facts(3) [of c session stream new w sX] obtain es' where
          es': "trace (snd (respondRegistered c session stream new w sX))
            = trace s1 @ es @ StreamWrite stream (RegisteredFrame (registeredPayload new)) # es'"
          unfolding es by auto
        from run_ops_pool [OF run] facts(8,9)
        have pool: "portPool sX = portPool s" and idx: "nextPortIndex s < nextPortIndex sX"
          by simp_all
        have ports: "AssignedPort new \<noteq> AssignedPort old
            \<and> AssignedPort old \<notin> set (drop (nextPortIndex sX) (portPool s))"
          if d: "distinct (portPool s)
            \<and> AssignedPort old \<in> set (take (nextPortIndex s) (portPool s))"
        proof
          from d idx show "AssignedPort old \<notin> set (drop (nextPortIndex sX) (portPool s))"
            by (intro handed_out_not_free [of _ _ "nextPortIndex s"]) auto
          from d show "AssignedPort new \<noteq> AssignedPort old"
            using handed_out_never_again [of s "AssignedPort old" "[]" s tid session bind tr
                new s1] reg
            by simp
        qed
        show ?thesis
          using ports by (simp add: es' respondRegistered_facts pool idx)
      qed
      show ?thesis
        using later by (simp add: Inr res Some facts available_ports_def split: sum.splits)
    qed
  qed
qed


theorem reregistration_replacement_witness:
  "(case handleControlConnection (sample_lib (sample_claims ''tenant-0001'' 0)) 1 2 3
           (Some (sample_register ''tenant-0001'')) 50 (Some 10) 60 True
           (projr (NewRelayServer (sample_config 50000 50001 10) ''k'')) of
      Inr (Serving old, s) \<Rightarrow>
        tenants s ''tenant-0001'' = Some old \<and> Listener old = Some 10
        \<and> AssignedPort old = 50000 \<and> distinct (portPool s)
        \<and> AssignedPort old \<in> set (take (nextPortIndex s) (portPool s))
        \<and> (case registerTenant ''tenant-0001'' 5 (Some 11) 80 s of
             Inr (Some new, s1) \<Rightarrow>
               AssignedPort new = 50001 \<and> tenants s1 ''tenant-0001'' = Some new
               \<and> trace s1 =
                   [Listen 50000, StreamWrite 3 (RegisteredFrame (registeredPayload old)),
                    ListenerClose 10, Listen 50001]
               \<and> (case run_ops s1 [Unregister ''tenant-0001''] of
                    Inr sX \<Rightarrow>
                      take 4 (trace (snd (respondRegistered 4 5 6 new True sX))) = trace s1
                      \<and> last (trace (snd (respondRegistered 4 5 6 new True sX)))
                          = StreamWrite 6 (RegisteredFrame (registeredPayload new))
                      \<and> nextPortIndex (snd (respondRegistered 4 5 6 new True sX)) = 2
                      \<and> 50000 \<notin> set (drop (nextPortIndex
                             (snd (respondRegistered 4 5 6 new True sX))) (portPool s))
                  | Inl p \<Rightarrow> False)
           | _ \<Rightarrow> False)
    | _ \<Rightarrow> False)"
  using reregistration_replacement [where
      s = "snd (projr (handleControlConnection (sample_lib (sample_claims ''tenant-0001'' 0))
              1 2 3 (Some (sample_register ''tenant-0001'')) 50 (Some 10) 60 True
              (projr (NewRelayServer (sample_config 50000 50001 10) ''k''))))"
      and tid = "''tenant-0001''"
      and old = "\<lparr>ID = ''tenant-0001'', AssignedPort = 50000, SQLUser = ''tatbeeb_tenant'',
                SQLPassword = ''pwd_60'', ControlSession = 2, Listener = Some 10,
                ActiveConns = 0\<rparr>"
      and l = 10 and session = 5 and bind = "Some 11" and tr = 80
      and ops = "[Unregister ''tenant-0001'']" and c = 4 and stream = 6 and w = True]
  by (simp add: eval_defs sample_defs)

theorem reregistration_replacement_counterexample:
  "(case handleControlConnection (sample_lib (sample_claims ''tenant-0001'' 0)) 1 2 3
           (Some (sample_register ''tenant-0001'')) 50 (Some 10) 60 True
           (projr (NewRelayServer (sample_config 50000 50001 10) ''k'')) of
      Inr (Serving old, s) \<Rightarrow>
        (case registerTenant ''tenant-0001'' 5 (Some 11) 80 s of
           Inr (Some new, s1) \<Rightarrow>
             AssignedPort old = 50000 \<and> ControlSession old = 2 \<and> AssignedPort new = 50001
             \<and> SessionClose 2 \<notin> set (trace (acceptTenantConnections_exit old
                    (snd (respondRegistered 4 5 6 new True s1))))
             \<and> SessionClose 2 \<notin> set (trace (snd (respondRegistered 4 5 6 new True
                    (acceptTenantConnections_exit old s1))))
             \<and> 50000 \<notin> set (drop (nextPortIndex (acceptTenantConnections_exit old
                    (snd (respondRegistered 4 5 6 new True s1)))) (portPool s1))
             \<and> available_ports (acceptTenantConnections_exit old
                    (snd (respondRegistered 4 5 6 new True s1))) = 0
             \<and> available_ports (snd (respondRegistered 4 5 6 new True
                    (acceptTenantConnections_exit old s1))) = 0
         | _ \<Rightarrow> False)
    | _ \<Rightarrow> False)"
  by (simp add: eval_defs sample_defs)

section \<open>Token expiry\<close>

text \<open>
  C5. JWT expiry, as the code has it. For a token of three parts whose signature is the
  computed one, whose payload decodes and parses, and whose issuer and audience are the
  expected ones, \<^verbatim>\<open>VerifyJWT\<close> returns the expiry error exactly when \<^verbatim>\<open>exp\<close> is
  positive and strictly less than the current time in seconds; otherwise it returns
  the claims. So a token with \<^verbatim>\<open>exp\<close> equal to now, and a token with a missing
  (zero) or negative \<^verbatim>\<open>exp\<close>, are accepted.
\<close>

theorem VerifyJWT_expiry:
  assumes "Split_dot tokenString = [header, payload, signature]"
    and "signature = computeSignature lib header payload secret"
    and "base64url_decode lib payload = Some payloadBytes"
    and "json_unmarshal lib payloadBytes = Some claims"
    and "Iss claims = expectedIssuer" and "Aud claims = expectedAudience"
  shows "VerifyJWT lib now tokenString secret expectedIssuer expectedAudience =
           (if 0 < Exp claims \<and> Exp claims < now then Inl (TokenExpired (Exp claims))
            else Inr claims)"
  using assms by (simp add: VerifyJWT_def)

theorem VerifyJWT_expiry_witness:
  "VerifyJWT (sample_lib (sample_claims ''tenant-0001'' 99)) 100 ''header.payload.mac'' ''k''
       ''his.tatbeeb.sa'' ''tatbeeb-link.tatbeeb.sa'' = Inl (TokenExpired 99)
   \<and> VerifyJWT (sample_lib (sample_claims ''tenant-0001'' 101)) 100 ''header.payload.mac'' ''k''
       ''his.tatbeeb.sa'' ''tatbeeb-link.tatbeeb.sa'' = Inr (sample_claims ''tenant-0001'' 101)"
proof -
  have split: "Split_dot ''header.payload.mac'' = [''header'', ''payload'', ''mac'']"
    by simp
  have "VerifyJWT (sample_lib (sample_claims ''tenant-0001'' 99)) 100 ''header.payload.mac''
          ''k'' ''his.tatbeeb.sa'' ''tatbeeb-link.tatbeeb.sa'' = Inl (TokenExpired 99)"
    using VerifyJWT_expiry [OF split, of "sample_lib (sample_claims ''tenant-0001'' 99)" "''k''"
        "''payload''" "sample_claims ''tenant-0001'' 99" "''his.tatbeeb.sa''"
        "''tatbeeb-link.tatbeeb.sa''" 100]
    by (simp add: sample_defs computeSignature_def)
  moreover
  have "VerifyJWT (sample_lib (sample_claims ''tenant-0001'' 101)) 100 ''header.payload.mac''
          ''k'' ''his.tatbeeb.sa'' ''tatbeeb-link.tatbeeb.sa''
          = Inr (sample_claims ''tenant-0001'' 101)"
    using VerifyJWT_expiry [OF split, of "sample_lib (sample_claims ''tenant-0001'' 101)" "''k''"
        "''payload''" "sample_claims ''tenant-0001'' 101" "''his.tatbeeb.sa''"
        "''tatbeeb-link.tatbeeb.sa''" 100]
    by (simp add: sample_defs computeSignature_def)
  ultimately show ?thesis by simp
qed

theorem VerifyJWT_expiry_counterexample:
  "VerifyJWT (sample_lib (sample_claims ''tenant-0001'' 100)) 100 ''header.payload.mac'' ''k''
       ''his.tatbeeb.sa'' ''tatbeeb-link.tatbeeb.sa'' = Inr (sample_claims ''tenant-0001'' 100)
   \<and> VerifyJWT (sample_lib (sample_claims ''tenant-0001'' 0)) 100 ''header.payload.mac'' ''k''
       ''his.tatbeeb.sa'' ''tatbeeb-link.tatbeeb.sa'' = Inr (sample_claims ''tenant-0001'' 0)"
  by (simp add: VerifyJWT_def computeSignature_def sample_defs)

section \<open>The SQL credentials of a registration\<close>

text \<open>
  C9. The user name is built from \<^verbatim>\<open>tenantID[:6]\<close>. With a port available and the
  bind successful, \<^verbatim>\<open>registerTenant\<close> panics when the tenant id has fewer than 6
  bytes, and so does the handler for a registration whose token verifies for that id
  (it does not answer with an \<^verbatim>\<open>ERROR\<close> frame); with 6 bytes or more the tenant is
  registered and its user name is \<^verbatim>\<open>tatbeeb_\<close> followed by the first 6 bytes.
\<close>

theorem registerTenant_slice_bounds:
  assumes "nextPortIndex s < length (portPool s)"
    and "VerifyJWT lib tv (JWT reg) (jwtSecret s) (jwtIssuer s) (jwtAudience s) = Inr claims"
    and "Sub claims = TenantID reg"
  shows "(length (TenantID reg) < 6 \<longrightarrow>
            registerTenant (TenantID reg) session (Some l) tr s = Inl SliceBoundsOutOfRange
          \<and> handleControlConnection lib c session stream (Some reg) tv (Some l) tr w s
              = Inl SliceBoundsOutOfRange)
       \<and> (6 \<le> length (TenantID reg) \<longrightarrow>
            (case registerTenant (TenantID reg) session (Some l) tr s of
               Inr (Some t, s') \<Rightarrow> SQLUser t = ''tatbeeb_'' @ take 6 (TenantID reg)
             | _ \<Rightarrow> False))"
  using assms
  by (auto simp: registerTenant_def handleControlConnection_def respondRegistered_def Let_def
      split: option.splits)

theorem registerTenant_slice_bounds_witness:
  "handleControlConnection (sample_lib (sample_claims ''abc'' 0)) 1 2 3
       (Some (sample_register ''abc'')) 50 (Some 10) 60 True
       (projr (NewRelayServer (sample_config 50000 50001 10) ''k'')) = Inl SliceBoundsOutOfRange
   \<and> (case registerTenant ''tenant-0001'' 2 (Some 10) 60
             (projr (NewRelayServer (sample_config 50000 50001 10) ''k'')) of
         Inr (Some t, s') \<Rightarrow> SQLUser t = ''tatbeeb_tenant''
       | _ \<Rightarrow> False)"
  using registerTenant_slice_bounds [where s = "projr (NewRelayServer (sample_config 50000 50001 10) ''k'')"
      and lib = "sample_lib (sample_claims ''abc'' 0)" and tv = 50
      and reg = "sample_register ''abc''" and claims = "sample_claims ''abc'' 0"
      and session = 2 and l = 10 and tr = 60 and c = 1 and stream = 3 and w = True]
    registerTenant_slice_bounds [where s = "projr (NewRelayServer (sample_config 50000 50001 10) ''k'')"
      and lib = "sample_lib (sample_claims ''tenant-0001'' 0)" and tv = 50
      and reg = "sample_register ''tenant-0001''" and claims = "sample_claims ''tenant-0001'' 0"
      and session = 2 and l = 10 and tr = 60 and c = 1 and stream = 3 and w = True]
  by (simp add: eval_defs sample_defs)

text \<open>
  C10. \<^verbatim>\<open>generatePassword\<close> is \<^verbatim>\<open>pwd_\<close> followed by the decimal digits of the
  clock in whole seconds, and nothing else: two registrations that succeed at the same
  clock value, whatever the tenants, sessions and relay states, get the same password.
\<close>

theorem generatePassword_deterministic:
  "generatePassword now = ''pwd_'' @ fmt_d now
   \<and> (case (registerTenant tidA sessionA bindA now sA,
             registerTenant tidB sessionB bindB now sB) of
         (Inr (Some tA, sA'), Inr (Some tB, sB')) \<Rightarrow>
           SQLPassword tA = generatePassword now \<and> SQLPassword tB = SQLPassword tA
       | _ \<Rightarrow> True)"
  by (auto simp: registerTenant_def generatePassword_def Let_def
      split: option.splits if_splits sum.splits)

theorem generatePassword_deterministic_witness:
  "generatePassword 1760572800 = ''pwd_1760572800''
   \<and> (case (registerTenant ''tenant-0001'' 2 (Some 10) 1760572800
              (projr (NewRelayServer (sample_config 50000 50001 10) ''k'')),
             registerTenant ''tenant-0002'' 5 (Some 11) 1760572800
              (snd (projr (registerTenant ''tenant-0001'' 2 (Some 10) 1760572800
                 (projr (NewRelayServer (sample_config 50000 50001 10) ''k'')))))) of
         (Inr (Some tA, sA'), Inr (Some tB, sB')) \<Rightarrow>
           AssignedPort tA = 50000 \<and> AssignedPort tB = 50001
           \<and> SQLPassword tA = ''pwd_1760572800'' \<and> SQLPassword tB = ''pwd_1760572800''
       | _ \<Rightarrow> False)"
  using generatePassword_deterministic [where now = 1760572800 and tidA = "''tenant-0001''"
      and sessionA = 2 and bindA = "Some 10"
      and sA = "projr (NewRelayServer (sample_config 50000 50001 10) ''k'')"
      and tidB = "''tenant-0002''" and sessionB = 5 and bindB = "Some 11"
      and sB = "snd (projr (registerTenant ''tenant-0001'' 2 (Some 10) 1760572800
             (projr (NewRelayServer (sample_config 50000 50001 10) ''k''))))"]
  by (simp add: eval_defs sample_defs)

section \<open>The connection cap\<close>





end
